theory Spec2Isabelle
  imports Complex_Main "HOL-Library.Word" "HOL-Library.Multiset"
begin

section \<open>Data model of \<^verbatim>\<open>etl.py\<close>\<close>

text \<open>
  The program is a sequence of dataframe transformations.  A dataframe is modelled as the
  list of its partitions, each partition the list of its rows: the partition index and
  the position of a row inside its partition are what \<^verbatim>\<open>monotonically_increasing_id\<close>
  reads.  JSON fields are nullable, so every column is an \<open>option\<close>; the double columns
  are compared by value only and are modelled as reals.

  The operations of the engine (\<^verbatim>\<open>select\<close>, \<^verbatim>\<open>where\<close>, \<^verbatim>\<open>dropDuplicates\<close>, \<^verbatim>\<open>join\<close>,
  \<^verbatim>\<open>monotonically_increasing_id\<close>, \<^verbatim>\<open>partitionBy\<close>, \<^verbatim>\<open>spark.sql\<close>) are given by what they
  compute on the rows; the order of the rows of a shuffled result is the one the model
  happens to produce, and the properties below are stated on sets, multisets and
  distinctness.  The dataframes handed to the functions are typed: every record has every
  column, possibly null.  The schema inference of the reader, under which a column that
  no record of the input has does not exist (so that an input without records has no
  columns at all), is not part of the model.  Reading the input and writing to the sink
  are assumed to succeed: the
  errors of the model are the two the program itself gives rise to, a timestamp UDF that
  raises and a view that is not there.
\<close>

type_synonym 'a dataframe = "'a list list"

text \<open>A record of the song catalog, as \<^verbatim>\<open>spark.read.json\<close> delivers it (line 44).\<close>

record song_data =
  song_id :: "string option"
  title :: "string option"
  artist_id :: "string option"
  year :: "int option"
  duration :: "real option"
  artist_name :: "string option"
  artist_location :: "string option"
  artist_latitude :: "real option"
  artist_longitude :: "real option"

text \<open>The projection \<^verbatim>\<open>['song_id', 'title', 'artist_id', 'year', 'duration']\<close> (line 49).\<close>

record songs_row =
  s_song_id :: "string option"
  s_title :: "string option"
  s_artist_id :: "string option"
  s_year :: "int option"
  s_duration :: "real option"

text \<open>The projection \<^verbatim>\<open>['song_id', 'title', 'artist_id', 'artist_name']\<close> registered as the
  temporary view \<^verbatim>\<open>sng_art_mapping\<close> (line 62).\<close>

record sng_art_row =
  m_song_id :: "string option"
  m_title :: "string option"
  m_artist_id :: "string option"
  m_artist_name :: "string option"

text \<open>The projection \<^verbatim>\<open>['artist_id', 'name', 'location', 'latitude', 'longitude']\<close> after the
  four renamings of lines 67 to 70.\<close>

record artists_row =
  a_artist_id :: "string option"
  a_name :: "string option"
  a_location :: "string option"
  a_latitude :: "real option"
  a_longitude :: "real option"

text \<open>
  A record of the activity log after the renamings of lines 91 to 96 (\<^verbatim>\<open>userId\<close> to
  \<^verbatim>\<open>user_id\<close>, \<^verbatim>\<open>sessionId\<close> to \<^verbatim>\<open>session_id\<close>, \<^verbatim>\<open>firstName\<close> to \<^verbatim>\<open>first_name\<close>,
  \<^verbatim>\<open>lastName\<close> to \<^verbatim>\<open>last_name\<close>, \<^verbatim>\<open>userAgent\<close> to \<^verbatim>\<open>user_agent\<close>).  Only the columns the
  program reads are kept; the log has no \<^verbatim>\<open>songId\<close> column, so that renaming changes
  nothing.
\<close>

record log_data =
  page :: "string option"
  ts :: "int option"
  user_id :: "string option"
  session_id :: "int option"
  first_name :: "string option"
  last_name :: "string option"
  gender :: "string option"
  level :: "string option"
  user_agent :: "string option"
  artist :: "string option"
  song :: "string option"
  location :: "string option"

text \<open>The projection \<^verbatim>\<open>['user_id', 'first_name', 'last_name', 'gender', 'level']\<close> (line 105).\<close>

record users_row =
  u_user_id :: "string option"
  u_first_name :: "string option"
  u_last_name :: "string option"
  u_gender :: "string option"
  u_level :: "string option"

text \<open>The log rows after the three \<^verbatim>\<open>withColumn\<close> calls of lines 118 to 120.\<close>

record 'ts log_row = log_data +
  start_time :: 'ts
  l_year :: "int option"
  l_month :: "int option"

text \<open>The log rows after \<^verbatim>\<open>withColumn('songplay_id', ...)\<close> (line 146).\<close>

record 'ts log_row_id = "'ts log_row" +
  songplay_id :: "64 word"

text \<open>The rows of the time table (lines 124 to 132).\<close>

record 'ts time_row =
  t_start_time :: 'ts
  t_year :: "int option"
  t_month :: "int option"
  t_hour :: "int option"
  t_day :: "int option"
  t_week :: "int option"
  t_weekday :: "int option"

text \<open>The rows of the songplays table (lines 152 to 155).\<close>

record 'ts songplays_row =
  sp_songplay_id :: "64 word"
  sp_start_time :: 'ts
  sp_user_id :: "string option"
  sp_level :: "string option"
  sp_song_id :: "string option"
  sp_artist_id :: "string option"
  sp_session_id :: "int option"
  sp_location :: "string option"
  sp_user_agent :: "string option"
  sp_year :: "int option"
  sp_month :: "int option"

text \<open>
  The functions of the engine and of the Python library that turn an epoch value into a
  wall-clock timestamp and read its calendar fields.  They depend on the time zone and
  the calendar convention of the machine the job runs on, so the model takes them as a
  parameter.  \<open>fromtimestamp\<close> is \<^verbatim>\<open>datetime.fromtimestamp\<close>, which raises on a value
  outside the platform's range (\<open>None\<close>); the others are the functions imported from
  \<^verbatim>\<open>pyspark.sql.functions\<close> on line 6.
\<close>

record 'ts calendar =
  fromtimestamp :: "real \<Rightarrow> 'ts option"
  sql_year :: "'ts \<Rightarrow> int option"
  sql_month :: "'ts \<Rightarrow> int option"
  sql_hour :: "'ts \<Rightarrow> int option"
  sql_dayofmonth :: "'ts \<Rightarrow> int option"
  sql_weekofyear :: "'ts \<Rightarrow> int option"
  sql_dayofweek :: "'ts \<Rightarrow> int option"

text \<open>The errors a run can end with.\<close>

datatype error =
  AnalysisException string  \<comment> \<open>table or view not found, carrying the name looked up\<close>
| PythonException           \<comment> \<open>the timestamp UDF raised inside a task\<close>

text \<open>The session: the temporary views registered so far, by name.\<close>

record spark_session =
  temp_views :: "string \<rightharpoonup> sng_art_row dataframe"

text \<open>
  The output sink: one entry per path below \<^verbatim>\<open>output_data\<close>.  \<open>None\<close> is a path that
  was never written.  A table written with \<^verbatim>\<open>partitionBy\<close> is stored as the list of its
  partition keys, each with the rows written under it.
\<close>

record 'ts sink =
  songs_parquet :: "((int option \<times> string option) \<times> songs_row list) list option"
  artists_parquet :: "artists_row list option"
  users_parquet :: "users_row list option"
  time_parquet :: "((int option \<times> int option) \<times> 'ts time_row list) list option"
  songplays_parquet :: "((int option \<times> int option) \<times> 'ts songplays_row list) list option"

section \<open>Dataframe operations\<close>

definition select_df :: "('a \<Rightarrow> 'b) \<Rightarrow> 'a dataframe \<Rightarrow> 'b dataframe" where
  "select_df f df = map (map f) df"

definition where_df :: "('a \<Rightarrow> bool) \<Rightarrow> 'a dataframe \<Rightarrow> 'a dataframe" where
  "where_df p df = map (filter p) df"

text \<open>\<^verbatim>\<open>collect\<close>: all rows of a dataframe.\<close>

definition collect :: "'a dataframe \<Rightarrow> 'a list" where
  "collect df = concat df"

text \<open>
  \<^verbatim>\<open>dropDuplicates()\<close> with no column list keeps one copy of every row that occurs, rows
  being compared on all their columns (nulls equal to nulls).  The rows are shuffled; the
  result is given as one partition.
\<close>

definition dropDuplicates :: "'a dataframe \<Rightarrow> 'a dataframe" where
  "dropDuplicates df = [remdups (collect df)]"

text \<open>
  SQL equality and conjunction are three-valued: a comparison with null is null, and a
  join keeps a pair of rows only where the condition is true.
\<close>

fun sql_eq :: "'a option \<Rightarrow> 'a option \<Rightarrow> bool option" where
  "sql_eq (Some x) (Some y) = Some (x = y)"
| "sql_eq _ _ = None"

fun sql_and :: "bool option \<Rightarrow> bool option \<Rightarrow> bool option" where
  "sql_and (Some False) _ = Some False"
| "sql_and _ (Some False) = Some False"
| "sql_and (Some True) (Some True) = Some True"
| "sql_and _ _ = None"

text \<open>The pairs an inner join emits for one row of its left side.\<close>

definition join_row :: "('a \<Rightarrow> 'b \<Rightarrow> bool option) \<Rightarrow> 'b list \<Rightarrow> 'a \<Rightarrow> ('a \<times> 'b) list" where
  "join_row on right_rows l = map (Pair l) (filter (\<lambda>r. on l r = Some True) right_rows)"

definition join_inner :: "('a \<Rightarrow> 'b \<Rightarrow> bool option) \<Rightarrow> 'a dataframe \<Rightarrow> 'b dataframe
    \<Rightarrow> ('a \<times> 'b) dataframe" where
  "join_inner on left right = map (\<lambda>part. concat (map (join_row on (collect right)) part)) left"

text \<open>
  \<^verbatim>\<open>monotonically_increasing_id()\<close>: a 64-bit value with the partition index in the upper
  31 bits and the number of the row inside its partition in the lower 33 bits.
\<close>

definition monotonically_increasing_id :: "nat \<Rightarrow> nat \<Rightarrow> 64 word" where
  "monotonically_increasing_id partition_index k =
     push_bit 33 (word_of_nat partition_index) + word_of_nat k"

text \<open>\<^verbatim>\<open>write.mode('overwrite').partitionBy(...)\<close>: the rows grouped under their key.\<close>

definition partitionBy :: "('a \<Rightarrow> 'k) \<Rightarrow> 'a dataframe \<Rightarrow> ('k \<times> 'a list) list" where
  "partitionBy key df =
     map (\<lambda>k. (k, filter (\<lambda>r. key r = k) (collect df))) (remdups (map key (collect df)))"

text \<open>\<^verbatim>\<open>spark.sql('select * from <name>')\<close>: the analysis fails at once on an unknown name.\<close>

definition spark_sql_select_all :: "spark_session \<Rightarrow> string \<Rightarrow> error + sng_art_row dataframe" where
  "spark_sql_select_all spark name =
     (case temp_views spark name of
        None \<Rightarrow> Inl (AnalysisException name)
      | Some v \<Rightarrow> Inr v)"

definition createOrReplaceTempView :: "string \<Rightarrow> sng_art_row dataframe \<Rightarrow> spark_session
    \<Rightarrow> spark_session" where
  "createOrReplaceTempView name df spark = spark\<lparr>temp_views := (temp_views spark)(name \<mapsto> df)\<rparr>"

section \<open>\<^verbatim>\<open>process_song_data\<close>\<close>

definition songs_cols :: "song_data \<Rightarrow> songs_row" where
  "songs_cols r = \<lparr>s_song_id = song_id r, s_title = title r, s_artist_id = artist_id r,
     s_year = year r, s_duration = duration r\<rparr>"

definition sng_art_cols :: "song_data \<Rightarrow> sng_art_row" where
  "sng_art_cols r = \<lparr>m_song_id = song_id r, m_title = title r, m_artist_id = artist_id r,
     m_artist_name = artist_name r\<rparr>"

definition artists_cols :: "song_data \<Rightarrow> artists_row" where
  "artists_cols r = \<lparr>a_artist_id = artist_id r, a_name = artist_name r,
     a_location = artist_location r, a_latitude = artist_latitude r,
     a_longitude = artist_longitude r\<rparr>"

definition songs_table :: "song_data dataframe \<Rightarrow> songs_row dataframe" where
  "songs_table df = dropDuplicates (select_df songs_cols df)"

definition sng_art_mapping :: "song_data dataframe \<Rightarrow> sng_art_row dataframe" where
  "sng_art_mapping df = dropDuplicates (select_df sng_art_cols df)"

definition artists_table :: "song_data dataframe \<Rightarrow> artists_row dataframe" where
  "artists_table df = dropDuplicates (select_df artists_cols df)"

text \<open>
  The function takes the dataframe read from \<^verbatim>\<open>input_data\<close>, writes the songs table,
  registers the view, writes the artists table, and returns the session and the sink.
\<close>

definition process_song_data :: "spark_session \<Rightarrow> song_data dataframe \<Rightarrow> 'ts sink
    \<Rightarrow> spark_session \<times> 'ts sink" where
  "process_song_data spark df out =
     (let out1 = out\<lparr>songs_parquet :=
            Some (partitionBy (\<lambda>r. (s_year r, s_artist_id r)) (songs_table df))\<rparr>;
          spark1 = createOrReplaceTempView ''sng_art_mapping'' (sng_art_mapping df) spark;
          out2 = out1\<lparr>artists_parquet := Some (collect (artists_table df))\<rparr>
      in (spark1, out2))"

section \<open>\<^verbatim>\<open>process_log_data\<close>\<close>

definition users_cols :: "log_data \<Rightarrow> users_row" where
  "users_cols r = \<lparr>u_user_id = user_id r, u_first_name = first_name r,
     u_last_name = last_name r, u_gender = gender r, u_level = level r\<rparr>"

definition users_table :: "log_data dataframe \<Rightarrow> users_row dataframe" where
  "users_table df = dropDuplicates (select_df users_cols df)"

text \<open>
  The UDF \<^verbatim>\<open>lambda x: dt.fromtimestamp(x / 1000)\<close>.  On a null \<^verbatim>\<open>ts\<close> the division raises
  a \<^verbatim>\<open>TypeError\<close>; \<^verbatim>\<open>/\<close> is Python's true division.
\<close>

definition get_timestamp :: "'ts calendar \<Rightarrow> int option \<Rightarrow> error + 'ts" where
  "get_timestamp cal x =
     (case x of
        None \<Rightarrow> Inl PythonException
      | Some v \<Rightarrow>
          (case fromtimestamp cal (real_of_int v / 1000) of
             None \<Rightarrow> Inl PythonException
           | Some t \<Rightarrow> Inr t))"

text \<open>Lines 116 to 121 on one row.\<close>

definition with_start_time :: "'ts calendar \<Rightarrow> log_data \<Rightarrow> error + 'ts log_row" where
  "with_start_time cal r =
     (case get_timestamp cal (ts r) of
        Inl e \<Rightarrow> Inl e
      | Inr t \<Rightarrow> Inr (log_data.extend r
          \<lparr>start_time = t, l_year = sql_year cal t, l_month = sql_month cal t\<rparr>))"

text \<open>Evaluating a list of rows stops at the first row on which the UDF raises.\<close>

fun eval_rows :: "('a \<Rightarrow> error + 'b) \<Rightarrow> 'a list \<Rightarrow> error + 'b list" where
  "eval_rows f [] = Inr []"
| "eval_rows f (x # xs) =
     (case f x of
        Inl e \<Rightarrow> Inl e
      | Inr y \<Rightarrow> (case eval_rows f xs of Inl e \<Rightarrow> Inl e | Inr ys \<Rightarrow> Inr (y # ys)))"

definition eval_df :: "('a \<Rightarrow> error + 'b) \<Rightarrow> 'a dataframe \<Rightarrow> error + 'b dataframe" where
  "eval_df f df = eval_rows (eval_rows f) df"

definition time_cols :: "'ts log_row \<Rightarrow> 'ts \<times> int option \<times> int option" where
  "time_cols r = (start_time r, l_year r, l_month r)"

definition time_fields :: "'ts calendar \<Rightarrow> 'ts \<times> int option \<times> int option \<Rightarrow> 'ts time_row" where
  "time_fields cal = (\<lambda>(t, y, m).
     \<lparr>t_start_time = t, t_year = y, t_month = m, t_hour = sql_hour cal t,
      t_day = sql_dayofmonth cal t, t_week = sql_weekofyear cal t,
      t_weekday = sql_dayofweek cal t\<rparr>)"

definition time_table :: "'ts calendar \<Rightarrow> 'ts log_row dataframe \<Rightarrow> 'ts time_row dataframe" where
  "time_table cal df = select_df (time_fields cal) (dropDuplicates (select_df time_cols df))"

text \<open>Line 146: every row gets the id of its partition and of its position there, among the
  rows of the partition that passed the filter.\<close>

definition with_songplay_id :: "'ts log_row dataframe \<Rightarrow> 'ts log_row_id dataframe" where
  "with_songplay_id df =
     map (\<lambda>(p, part).
            map (\<lambda>(k, r). log_row.extend r \<lparr>songplay_id = monotonically_increasing_id p k\<rparr>)
              (enumerate 0 part))
       (enumerate 0 df)"

text \<open>The join condition of line 149.\<close>

definition join_on :: "'x log_data_scheme \<Rightarrow> sng_art_row \<Rightarrow> bool option" where
  "join_on l r = sql_and (sql_eq (artist l) (m_artist_name r)) (sql_eq (song l) (m_title r))"

text \<open>The projection of lines 152 to 155 on a joined pair of rows.\<close>

definition songplays_cols :: "'ts log_row_id \<times> sng_art_row \<Rightarrow> 'ts songplays_row" where
  "songplays_cols = (\<lambda>(l, r).
     \<lparr>sp_songplay_id = songplay_id l, sp_start_time = start_time l, sp_user_id = user_id l,
      sp_level = level l, sp_song_id = m_song_id r, sp_artist_id = m_artist_id r,
      sp_session_id = session_id l, sp_location = location l, sp_user_agent = user_agent l,
      sp_year = l_year l, sp_month = l_month l\<rparr>)"

definition songplays :: "'ts log_row dataframe \<Rightarrow> sng_art_row dataframe
    \<Rightarrow> 'ts songplays_row dataframe" where
  "songplays df songs_art = select_df songplays_cols (join_inner join_on (with_songplay_id df) songs_art)"

text \<open>
  The function takes the dataframe read from \<^verbatim>\<open>input_data\<close> and returns the sink together
  with the outcome.  The users table is written before the timestamp column exists.  The
  write of the time table is the first action that runs the UDF: when the UDF raises, the
  job aborts and the old time output stays in place.  The lookup of the view comes after
  both writes.
\<close>

definition process_log_data :: "'ts calendar \<Rightarrow> spark_session \<Rightarrow> log_data dataframe \<Rightarrow> 'ts sink
    \<Rightarrow> 'ts sink \<times> (error + unit)" where
  "process_log_data cal spark input_df out =
     (let df = where_df (\<lambda>r. page r = Some ''NextSong'') input_df;
          out1 = out\<lparr>users_parquet := Some (collect (users_table df))\<rparr>
      in case eval_df (with_start_time cal) df of
           Inl e \<Rightarrow> (out1, Inl e)
         | Inr df2 \<Rightarrow>
             (let out2 = out1\<lparr>time_parquet :=
                    Some (partitionBy (\<lambda>r. (t_year r, t_month r)) (time_table cal df2))\<rparr>
              in case spark_sql_select_all spark ''sng_art_mapping'' of
                   Inl e \<Rightarrow> (out2, Inl e)
                 | Inr songs_art \<Rightarrow>
                     (out2\<lparr>songplays_parquet :=
                        Some (partitionBy (\<lambda>r. (sp_year r, sp_month r)) (songplays df2 songs_art))\<rparr>,
                      Inr ())))"

section \<open>\<^verbatim>\<open>main\<close>\<close>

definition main :: "'ts calendar \<Rightarrow> song_data dataframe \<Rightarrow> log_data dataframe \<Rightarrow> spark_session
    \<Rightarrow> 'ts sink \<Rightarrow> 'ts sink \<times> (error + unit)" where
  "main cal song_df log_df spark out =
     (case process_song_data spark song_df out of
        (spark1, out1) \<Rightarrow> process_log_data cal spark1 log_df out1)"

section \<open>Reading the outputs\<close>

text \<open>All rows of a table that was written with \<^verbatim>\<open>partitionBy\<close>.\<close>

definition rows_written :: "('k \<times> 'a list) list \<Rightarrow> 'a list" where
  "rows_written parts = concat (map snd parts)"

section \<open>The calendar of the program and concrete inputs\<close>

text \<open>
  The instance of the calendar parameter that the program has, on a machine whose local
  zone is UTC.  The UDF of line 113 is declared without a return type, so the engine
  stores its result as a string, and \<^verbatim>\<open>year\<close>, \<^verbatim>\<open>month\<close>, \<^verbatim>\<open>hour\<close>, \<^verbatim>\<open>dayofmonth\<close>,
  \<^verbatim>\<open>weekofyear\<close> and \<^verbatim>\<open>dayofweek\<close> of that string are null.  The string renders the
  wall-clock instant to the millisecond; the model stands for it by that instant, in
  milliseconds since the epoch.  \<^verbatim>\<open>datetime.fromtimestamp\<close> raises outside the years 1 to
  9999, and within the first day of year 1, where its probe one day earlier leaves that
  range.
\<close>

definition code_calendar :: "int calendar" where
  "code_calendar =
     \<lparr>fromtimestamp = (\<lambda>s. if - 62135510400 \<le> s \<and> s < 253402300800
          then Some \<lfloor>s * 1000\<rfloor> else None),
      sql_year = (\<lambda>t. None),
      sql_month = (\<lambda>t. None),
      sql_hour = (\<lambda>t. None),
      sql_dayofmonth = (\<lambda>t. None),
      sql_weekofyear = (\<lambda>t. None),
      sql_dayofweek = (\<lambda>t. None)\<rparr>"

text \<open>The catalog record and the activity record of the specification's scenario.\<close>

definition song_S1 :: song_data where
  "song_S1 = \<lparr>song_id = Some ''S1'', title = Some ''Test Song'', artist_id = Some ''A1'',
     year = Some 2000, duration = Some 200, artist_name = Some ''Test Artist'',
     artist_location = Some ''NYC'', artist_latitude = Some 40.7,
     artist_longitude = Some (- 74)\<rparr>"

definition event_E1 :: log_data where
  "event_E1 = \<lparr>page = Some ''NextSong'', ts = Some 946684800000, user_id = Some ''1'',
     session_id = Some 100, first_name = Some ''A'', last_name = Some ''B'',
     gender = Some ''F'', level = Some ''free'', user_agent = Some ''ua'',
     artist = Some ''Test Artist'', song = Some ''Test Song'', location = Some ''loc''\<rparr>"

text \<open>
  Variations of the two records: the same song and artist ids with another title and
  another spelling of the artist's name; the same title and artist name under another
  song id; the same user on the paid level; a page view; a play of a song that is not in
  the catalog.
\<close>

definition song_S1_live :: song_data where
  "song_S1_live = song_S1\<lparr>title := Some ''Test Song (Live)'',
     artist_name := Some ''The Test Artist''\<rparr>"

definition song_S2 :: song_data where
  "song_S2 = song_S1\<lparr>song_id := Some ''S2''\<rparr>"

definition event_E1_paid :: log_data where
  "event_E1_paid = event_E1\<lparr>level := Some ''paid''\<rparr>"

definition event_Home :: log_data where
  "event_Home = event_E1\<lparr>page := Some ''Home''\<rparr>"

definition event_other :: log_data where
  "event_other = event_E1\<lparr>song := Some ''Other Song''\<rparr>"

text \<open>A catalog record with no artist name, and a play of its title with no artist.\<close>

definition song_anon :: song_data where
  "song_anon = song_S1\<lparr>artist_name := None\<rparr>"

definition event_anon :: log_data where
  "event_anon = event_E1\<lparr>artist := None\<rparr>"

text \<open>A sink with no output yet, and a session with no view.\<close>

definition empty_sink :: "int sink" where
  "empty_sink = \<lparr>songs_parquet = None, artists_parquet = None, users_parquet = None,
     time_parquet = None, songplays_parquet = None\<rparr>"

definition new_session :: spark_session where
  "new_session = \<lparr>temp_views = Map.empty\<rparr>"

text \<open>The session after the catalog of the scenario has been processed, and a log of three
  records in two partitions.\<close>

definition catalog_session :: spark_session where
  "catalog_session = fst (process_song_data new_session [[song_S1]] empty_sink)"

definition log_A :: "log_data dataframe" where
  "log_A = [[event_E1, event_Home], [event_other]]"

text \<open>A log of two plays of the same song by the same user, in two partitions.\<close>

definition log_B :: "log_data dataframe" where
  "log_B = [[event_E1], [event_E1_paid]]"

text \<open>The timestamp UDF succeeds on every row that passes the filter of line 100.\<close>

definition ts_ok :: "'ts calendar \<Rightarrow> log_data dataframe \<Rightarrow> bool" where
  "ts_ok cal df \<longleftrightarrow>
     (\<forall>r\<in>set (collect df). page r = Some ''NextSong'' \<longrightarrow> (\<exists>t. get_timestamp cal (ts r) = Inr t))"

section \<open>Properties\<close>


lemma collect_select_df: "collect (select_df f df) = map f (collect df)"
  by (simp add: collect_def select_df_def map_concat)

lemma collect_where_df: "collect (where_df p df) = filter p (collect df)"
  by (simp add: collect_def where_df_def filter_concat)

lemma collect_dropDuplicates: "collect (dropDuplicates df) = remdups (collect df)"
  by (simp add: collect_def dropDuplicates_def)

lemma mset_concat_filter_keys:
  "distinct ks \<Longrightarrow>
   mset (concat (map (\<lambda>k. filter (\<lambda>r. key r = k) xs) ks)) = filter_mset (\<lambda>r. key r \<in> set ks) (mset xs)"
proof (induction ks)
  case Nil
  then show ?case by simp
next
  case (Cons k ks)
  then have "k \<notin> set ks" and IH: "mset (concat (map (\<lambda>k. filter (\<lambda>r. key r = k) xs) ks))
      = filter_mset (\<lambda>r. key r \<in> set ks) (mset xs)"
    by simp_all
  have "filter_mset (\<lambda>r. key r = k) (mset xs) + filter_mset (\<lambda>r. key r \<in> set ks) (mset xs)
      = filter_mset (\<lambda>r. key r \<in> set (k # ks)) (mset xs)"
    using \<open>k \<notin> set ks\<close> by (auto simp: multiset_eq_iff)
  then show ?case using IH by simp
qed

lemma mset_rows_written_partitionBy:
  "mset (rows_written (partitionBy key df)) = mset (collect df)"
proof -
  have "rows_written (partitionBy key df)
      = concat (map (\<lambda>k. filter (\<lambda>r. key r = k) (collect df)) (remdups (map key (collect df))))"
    by (simp add: rows_written_def partitionBy_def comp_def)
  moreover have "filter_mset (\<lambda>r. key r \<in> set (remdups (map key (collect df)))) (mset (collect df))
      = mset (collect df)"
    by (simp add: filter_mset_eq_conv)
  ultimately show ?thesis
    using mset_concat_filter_keys [of "remdups (map key (collect df))" key "collect df"] by simp
qed

lemma set_rows_written_partitionBy:
  "set (rows_written (partitionBy key df)) = set (collect df)"
  using mset_rows_written_partitionBy [of key df] by (metis set_mset_mset)

lemma distinct_rows_written_partitionBy:
  "distinct (rows_written (partitionBy key df)) = distinct (collect df)"
  using mset_rows_written_partitionBy [of key df] by (metis mset_eq_imp_distinct_iff)


text \<open>
  Claim C9.  The deduplication step of the Song, Artist, User and Time tables is
  idempotent: \<open>dropDuplicates\<close> applied to the output of each of the four steps (and to
  the output of \<open>dropDuplicates\<close> on any dataframe) returns that output unchanged, so the
  row sets are equal.
\<close>
theorem dedup_idempotent:
  "dropDuplicates (songs_table sdf) = songs_table sdf \<and>
   dropDuplicates (artists_table sdf) = artists_table sdf \<and>
   dropDuplicates (users_table ldf) = users_table ldf \<and>
   dropDuplicates (dropDuplicates (select_df time_cols df2)) = dropDuplicates (select_df time_cols df2) \<and>
   dropDuplicates (dropDuplicates df) = dropDuplicates df \<and>
   set (collect (dropDuplicates (dropDuplicates df))) = set (collect (dropDuplicates df))"
  by (simp add: songs_table_def artists_table_def users_table_def dropDuplicates_def collect_def)


lemma where_df_idem: "where_df p (where_df p df) = where_df p df"
  by (simp add: where_df_def comp_def)

lemma process_log_data_where:
  "process_log_data cal spark (where_df (\<lambda>r. page r = Some ''NextSong'') df) out
     = process_log_data cal spark df out"
  by (simp only: process_log_data_def where_df_idem)

text \<open>
  Claim C4.  An activity record whose page is not \<^verbatim>\<open>NextSong\<close> (a null page included)
  contributes to no output: wherever the record stands in the log, the run with the
  record has the same outcome and leaves the same sink (users, time and songplays) as the
  run on the log without it.
\<close>
theorem other_pages_contribute_nothing:
  assumes "page r \<noteq> Some ''NextSong''"
  shows "process_log_data cal spark (before @ (xs @ r # ys) # after) out
       = process_log_data cal spark (before @ (xs @ ys) # after) out"
proof -
  have "where_df (\<lambda>r. page r = Some ''NextSong'') (before @ (xs @ r # ys) # after)
      = where_df (\<lambda>r. page r = Some ''NextSong'') (before @ (xs @ ys) # after)"
    using assms by (simp add: where_df_def)
  then show ?thesis
    using process_log_data_where [of cal spark "before @ (xs @ r # ys) # after" out]
      process_log_data_where [of cal spark "before @ (xs @ ys) # after" out]
    by simp
qed

lemma users_parquet_process_log_data:
  "users_parquet (fst (process_log_data cal spark df out))
     = Some (remdups (map users_cols (filter (\<lambda>r. page r = Some ''NextSong'') (collect df))))"
  by (simp add: process_log_data_def Let_def users_table_def collect_dropDuplicates
      collect_select_df collect_where_df split: sum.splits)

text \<open>
  Claim C7.  The users table is deduplicated on whole rows only.  When the log holds two
  \<^verbatim>\<open>NextSong\<close> events of one user that agree on first name, last name and gender and
  differ in level, the users output is written, has no repeated row, consists of the five
  columns user id, first name, last name, gender and level of the \<^verbatim>\<open>NextSong\<close> events,
  and holds two different rows for that user, one with each level.
\<close>
theorem users_exact_row_dedup:
  assumes "e1 \<in> set (collect df)" and "e2 \<in> set (collect df)"
    and "page e1 = Some ''NextSong''" and "page e2 = Some ''NextSong''"
    and "user_id e1 = user_id e2" and "first_name e1 = first_name e2"
    and "last_name e1 = last_name e2" and "gender e1 = gender e2"
    and "level e1 \<noteq> level e2"
  shows "\<exists>users. users_parquet (fst (process_log_data cal spark df out)) = Some users \<and>
           distinct users \<and>
           set users =
             (\<lambda>r. \<lparr>u_user_id = user_id r, u_first_name = first_name r, u_last_name = last_name r,
                    u_gender = gender r, u_level = level r\<rparr>) `
               {r \<in> set (collect df). page r = Some ''NextSong''} \<and>
           \<lparr>u_user_id = user_id e1, u_first_name = first_name e1, u_last_name = last_name e1,
             u_gender = gender e1, u_level = level e1\<rparr> \<in> set users \<and>
           \<lparr>u_user_id = user_id e1, u_first_name = first_name e1, u_last_name = last_name e1,
             u_gender = gender e1, u_level = level e2\<rparr> \<in> set users \<and>
           \<lparr>u_user_id = user_id e1, u_first_name = first_name e1, u_last_name = last_name e1,
             u_gender = gender e1, u_level = level e1\<rparr> \<noteq>
           \<lparr>u_user_id = user_id e1, u_first_name = first_name e1, u_last_name = last_name e1,
             u_gender = gender e1, u_level = level e2\<rparr>"
proof -
  let ?f = "\<lambda>r. \<lparr>u_user_id = user_id r, u_first_name = first_name r, u_last_name = last_name r,
                    u_gender = gender r, u_level = level r\<rparr>"
  let ?users = "remdups (map ?f (filter (\<lambda>r. page r = Some ''NextSong'') (collect df)))"
  have f: "users_cols = ?f"
    by (rule ext) (simp add: users_cols_def)
  have u: "users_parquet (fst (process_log_data cal spark df out)) = Some ?users"
    by (simp only: users_parquet_process_log_data f)
  have d: "distinct ?users"
    by simp
  have s: "set ?users = ?f ` {r \<in> set (collect df). page r = Some ''NextSong''}"
    by auto
  have "?f e1 \<in> set ?users"
    using assms(1,3) by auto
  then have m1: "\<lparr>u_user_id = user_id e1, u_first_name = first_name e1, u_last_name = last_name e1,
             u_gender = gender e1, u_level = level e1\<rparr> \<in> set ?users" .
  have "?f e2 \<in> set ?users"
    using assms(2,4) by auto
  then have m2: "\<lparr>u_user_id = user_id e1, u_first_name = first_name e1, u_last_name = last_name e1,
             u_gender = gender e1, u_level = level e2\<rparr> \<in> set ?users"
    by (simp only: assms(5-8))
  have n: "\<lparr>u_user_id = user_id e1, u_first_name = first_name e1, u_last_name = last_name e1,
             u_gender = gender e1, u_level = level e1\<rparr> \<noteq>
           \<lparr>u_user_id = user_id e1, u_first_name = first_name e1, u_last_name = last_name e1,
             u_gender = gender e1, u_level = level e2\<rparr>"
    using assms(9) by simp
  show ?thesis
    by (rule exI [where x = ?users]) (intro conjI u d s m1 m2 n)
qed


lemma eval_rows_Inr_iff:
  "eval_rows f xs = Inr ys \<longleftrightarrow> list_all2 (\<lambda>x y. f x = Inr y) xs ys"
proof (induction xs arbitrary: ys)
  case Nil
  then show ?case by auto
next
  case (Cons x xs)
  show ?case
    by (auto simp: list_all2_Cons1 Cons.IH [symmetric] split: sum.splits)
qed

lemma list_all2_lhs_ex: "list_all2 P xs ys \<Longrightarrow> x \<in> set xs \<Longrightarrow> \<exists>y\<in>set ys. P x y"
  by (induction rule: list_all2_induct) auto

lemma list_all2_rhs_ex: "list_all2 P xs ys \<Longrightarrow> y \<in> set ys \<Longrightarrow> \<exists>x\<in>set xs. P x y"
  by (induction rule: list_all2_induct) auto

lemma eval_rows_Inl:
  "eval_rows f xs = Inl e \<Longrightarrow> \<exists>x\<in>set xs. f x = Inl e"
  by (induction xs) (auto split: sum.splits)

lemma eval_rows_total:
  "(\<forall>x\<in>set xs. \<exists>y. f x = Inr y) \<Longrightarrow> \<exists>ys. eval_rows f xs = Inr ys"
proof (induction xs)
  case Nil
  then show ?case by simp
next
  case (Cons x xs)
  then obtain y ys where "f x = Inr y" and "eval_rows f xs = Inr ys"
    by auto
  then show ?case by simp
qed

lemma eval_df_Inr_iff:
  "eval_df f df = Inr df2 \<longleftrightarrow> list_all2 (list_all2 (\<lambda>x y. f x = Inr y)) df df2"
  by (simp add: eval_df_def eval_rows_Inr_iff)

lemma list_all2_concat:
  "list_all2 (list_all2 P) xss yss \<Longrightarrow> list_all2 P (concat xss) (concat yss)"
  by (induction xss yss rule: list_all2_induct) (auto intro: list_all2_appendI)

lemma eval_df_collect:
  "eval_df f df = Inr df2 \<Longrightarrow> list_all2 (\<lambda>x y. f x = Inr y) (collect df) (collect df2)"
  by (simp add: eval_df_Inr_iff collect_def list_all2_concat)

lemma eval_df_Inl:
  assumes "eval_df f df = Inl e"
  shows "\<exists>x\<in>set (collect df). f x = Inl e"
proof -
  from assms obtain part where "part \<in> set df" and "eval_rows f part = Inl e"
    unfolding eval_df_def using eval_rows_Inl by fastforce
  then show ?thesis
    using eval_rows_Inl [of f part e] by (auto simp: collect_def)
qed

lemma eval_df_total:
  assumes "\<forall>x\<in>set (collect df). \<exists>y. f x = Inr y"
  shows "\<exists>df2. eval_df f df = Inr df2"
proof -
  have "\<forall>part\<in>set df. \<exists>ys. eval_rows f part = Inr ys"
    using assms by (auto simp: collect_def intro!: eval_rows_total)
  then show ?thesis
    unfolding eval_df_def by (rule eval_rows_total)
qed

lemma get_timestamp_Inl: "get_timestamp cal x = Inl e \<Longrightarrow> e = PythonException"
  by (auto simp: get_timestamp_def split: option.splits)

lemma with_start_time_Inl: "with_start_time cal r = Inl e \<Longrightarrow> e = PythonException"
  by (auto simp: with_start_time_def split: sum.splits dest: get_timestamp_Inl)

lemma with_start_time_Inr:
  assumes "with_start_time cal r = Inr r2"
  shows "get_timestamp cal (ts r) = Inr (start_time r2)"
    and "l_year r2 = sql_year cal (start_time r2)"
    and "l_month r2 = sql_month cal (start_time r2)"
    and "log_data.truncate r2 = r"
  using assms
  by (auto simp: with_start_time_def log_data.defs log_row.defs split: sum.splits)

lemma with_start_time_total:
  "get_timestamp cal (ts r) = Inr t \<Longrightarrow> \<exists>r2. with_start_time cal r = Inr r2"
  by (simp add: with_start_time_def)

lemma ts_ok_eval:
  "ts_ok cal df \<longleftrightarrow>
   (\<exists>df2. eval_df (with_start_time cal) (where_df (\<lambda>r. page r = Some ''NextSong'') df) = Inr df2)"
proof
  assume "ts_ok cal df"
  then have "\<forall>r\<in>set (collect (where_df (\<lambda>r. page r = Some ''NextSong'') df)).
      \<exists>r2. with_start_time cal r = Inr r2"
    by (auto simp: ts_ok_def collect_where_df dest: with_start_time_total)
  then show "\<exists>df2. eval_df (with_start_time cal) (where_df (\<lambda>r. page r = Some ''NextSong'') df) = Inr df2"
    by (rule eval_df_total)
next
  assume "\<exists>df2. eval_df (with_start_time cal) (where_df (\<lambda>r. page r = Some ''NextSong'') df) = Inr df2"
  then obtain df2 where
    "eval_df (with_start_time cal) (where_df (\<lambda>r. page r = Some ''NextSong'') df) = Inr df2"
    by blast
  from eval_df_collect [OF this] have
    "list_all2 (\<lambda>x y. with_start_time cal x = Inr y)
       (filter (\<lambda>r. page r = Some ''NextSong'') (collect df)) (collect df2)"
    by (simp add: collect_where_df)
  then have "\<forall>r\<in>set (filter (\<lambda>r. page r = Some ''NextSong'') (collect df)).
      \<exists>r2. with_start_time cal r = Inr r2"
    using list_all2_lhs_ex by fastforce
  then show "ts_ok cal df"
    by (auto simp: ts_ok_def dest: with_start_time_Inr(1))
qed

lemma process_log_data_udf_fails:
  assumes "\<not> ts_ok cal df"
  shows "process_log_data cal spark df out =
    (out\<lparr>users_parquet := Some (collect (users_table (where_df (\<lambda>r. page r = Some ''NextSong'') df)))\<rparr>,
     Inl PythonException)"
proof -
  obtain e where e: "eval_df (with_start_time cal) (where_df (\<lambda>r. page r = Some ''NextSong'') df) = Inl e"
    using assms ts_ok_eval [of cal df]
    by (cases "eval_df (with_start_time cal) (where_df (\<lambda>r. page r = Some ''NextSong'') df)") auto
  then have "e = PythonException"
    using eval_df_Inl with_start_time_Inl by blast
  with e show ?thesis
    by (simp add: process_log_data_def)
qed

lemma process_log_data_no_view:
  assumes "eval_df (with_start_time cal) (where_df (\<lambda>r. page r = Some ''NextSong'') df) = Inr df2"
    and "temp_views spark ''sng_art_mapping'' = None"
  shows "process_log_data cal spark df out =
    (out\<lparr>users_parquet := Some (collect (users_table (where_df (\<lambda>r. page r = Some ''NextSong'') df))),
         time_parquet := Some (partitionBy (\<lambda>r. (t_year r, t_month r)) (time_table cal df2))\<rparr>,
     Inl (AnalysisException ''sng_art_mapping''))"
  using assms by (simp add: process_log_data_def spark_sql_select_all_def)

lemma process_log_data_success:
  assumes "eval_df (with_start_time cal) (where_df (\<lambda>r. page r = Some ''NextSong'') df) = Inr df2"
    and "temp_views spark ''sng_art_mapping'' = Some songs_art"
  shows "process_log_data cal spark df out =
    (out\<lparr>users_parquet := Some (collect (users_table (where_df (\<lambda>r. page r = Some ''NextSong'') df))),
         time_parquet := Some (partitionBy (\<lambda>r. (t_year r, t_month r)) (time_table cal df2)),
         songplays_parquet := Some (partitionBy (\<lambda>r. (sp_year r, sp_month r)) (songplays df2 songs_art))\<rparr>,
     Inr ())"
  using assms by (simp add: process_log_data_def spark_sql_select_all_def)

text \<open>
  Claim C3.  When the view \<^verbatim>\<open>sng_art_mapping\<close> was never registered, the run never
  completes and never writes the songplays output.  It ends with the analysis error that
  names the missing view whenever it reaches the lookup, that is, whenever the timestamp
  UDF succeeds on every row that passes the filter; otherwise it has already ended with
  the UDF's error while writing the time table.
\<close>
theorem missing_view_fails:
  assumes "temp_views spark ''sng_art_mapping'' = None"
  shows "snd (process_log_data cal spark df out) \<noteq> Inr () \<and>
         snd (process_log_data cal spark df out) =
           (if \<forall>r\<in>set (collect df). page r = Some ''NextSong'' \<longrightarrow>
                 (\<exists>t. get_timestamp cal (ts r) = Inr t)
            then Inl (AnalysisException ''sng_art_mapping'') else Inl PythonException) \<and>
         songplays_parquet (fst (process_log_data cal spark df out)) = songplays_parquet out"
proof (cases "ts_ok cal df")
  case True
  then obtain df2 where
    "eval_df (with_start_time cal) (where_df (\<lambda>r. page r = Some ''NextSong'') df) = Inr df2"
    using ts_ok_eval by blast
  from process_log_data_no_view [OF this assms, of out] True show ?thesis
    by (simp add: ts_ok_def)
next
  case False
  from process_log_data_udf_fails [OF this, of spark out] False show ?thesis
    by (simp add: ts_ok_def)
qed

text \<open>
  Claim C10.  The run is not atomic.  When the view is missing and the timestamp UDF
  succeeds on every row that passes the filter, the run ends with the analysis error, and
  the sink it leaves is the old sink with the users and time outputs replaced by the
  tables of this run; the songplays output is the old one.
\<close>
theorem not_atomic_on_missing_view:
  assumes "temp_views spark ''sng_art_mapping'' = None"
    and "\<forall>r\<in>set (collect df). page r = Some ''NextSong'' \<longrightarrow> (\<exists>t. get_timestamp cal (ts r) = Inr t)"
  shows "\<exists>df2. eval_df (with_start_time cal) (where_df (\<lambda>r. page r = Some ''NextSong'') df) = Inr df2 \<and>
      process_log_data cal spark df out =
        (out\<lparr>users_parquet :=
               Some (collect (users_table (where_df (\<lambda>r. page r = Some ''NextSong'') df))),
             time_parquet :=
               Some (partitionBy (\<lambda>r. (t_year r, t_month r)) (time_table cal df2))\<rparr>,
         Inl (AnalysisException ''sng_art_mapping'')) \<and>
      songplays_parquet (fst (process_log_data cal spark df out)) = songplays_parquet out"
proof -
  from assms(2) have "ts_ok cal df" by (simp add: ts_ok_def)
  then obtain df2 where
    df2: "eval_df (with_start_time cal) (where_df (\<lambda>r. page r = Some ''NextSong'') df) = Inr df2"
    using ts_ok_eval by blast
  from process_log_data_no_view [OF df2 assms(1), of out] df2 show ?thesis
    by simp
qed


lemma distinct_map_rows_written_partitionBy:
  "distinct (map f (rows_written (partitionBy key df))) = distinct (map f (collect df))"
proof -
  have "mset (map f (rows_written (partitionBy key df))) = mset (map f (collect df))"
    using mset_rows_written_partitionBy [of key df] by (metis mset_map)
  then show ?thesis
    by (rule mset_eq_imp_distinct_iff)
qed

lemma distinct_map_remdups_iff:
  "distinct (map f (remdups xs)) \<longleftrightarrow> inj_on f (set xs)"
  by (simp add: distinct_map)

lemma collect_songs_table: "collect (songs_table df) = remdups (map songs_cols (collect df))"
  by (simp add: songs_table_def collect_dropDuplicates collect_select_df)

lemma collect_artists_table: "collect (artists_table df) = remdups (map artists_cols (collect df))"
  by (simp add: artists_table_def collect_dropDuplicates collect_select_df)

lemma collect_time_table:
  "collect (time_table cal df) = map (time_fields cal) (remdups (map time_cols (collect df)))"
  by (simp add: time_table_def collect_dropDuplicates collect_select_df)

text \<open>
  Claim C2, as amended.  After \<open>process_song_data\<close> the Song and Artist outputs are
  written, neither holds a row twice, and their rows are exactly the projections of the
  catalog records: one row for every distinct tuple of the projected columns.  The
  \<open>song_id\<close> values of the Song output are pairwise distinct exactly when all catalog
  records with the same \<open>song_id\<close> agree on title, artist id, year and duration; the
  \<open>artist_id\<close> values of the Artist output are pairwise distinct exactly when all catalog
  records with the same \<open>artist_id\<close> agree on artist name, location, latitude and
  longitude.
\<close>
theorem song_artist_rows_unique:
  assumes "process_song_data spark df out = (spark', out')"
  shows "\<exists>songs artists.
      songs_parquet out' = Some songs \<and> artists_parquet out' = Some artists \<and>
      distinct (rows_written songs) \<and> distinct artists \<and>
      set (rows_written songs) =
        (\<lambda>r. \<lparr>s_song_id = song_id r, s_title = title r, s_artist_id = artist_id r,
               s_year = year r, s_duration = duration r\<rparr>) ` set (collect df) \<and>
      set artists =
        (\<lambda>r. \<lparr>a_artist_id = artist_id r, a_name = artist_name r,
               a_location = artist_location r, a_latitude = artist_latitude r,
               a_longitude = artist_longitude r\<rparr>) ` set (collect df) \<and>
      (distinct (map s_song_id (rows_written songs)) \<longleftrightarrow>
        (\<forall>r\<in>set (collect df). \<forall>r'\<in>set (collect df).
           song_id r = song_id r' \<longrightarrow>
             title r = title r' \<and> artist_id r = artist_id r' \<and> year r = year r' \<and>
             duration r = duration r')) \<and>
      (distinct (map a_artist_id artists) \<longleftrightarrow>
        (\<forall>r\<in>set (collect df). \<forall>r'\<in>set (collect df).
           artist_id r = artist_id r' \<longrightarrow>
             artist_name r = artist_name r' \<and> artist_location r = artist_location r' \<and>
             artist_latitude r = artist_latitude r' \<and> artist_longitude r = artist_longitude r'))"
proof -
  let ?songs = "partitionBy (\<lambda>r. (s_year r, s_artist_id r)) (songs_table df)"
  let ?artists = "collect (artists_table df)"
  have o1: "songs_parquet out' = Some ?songs" and o2: "artists_parquet out' = Some ?artists"
    using assms by (auto simp: process_song_data_def Let_def)
  have d1: "distinct (rows_written ?songs)"
    by (simp add: distinct_rows_written_partitionBy collect_songs_table)
  have d2: "distinct ?artists"
    by (simp add: collect_artists_table)
  have s1: "set (rows_written ?songs) =
      (\<lambda>r. \<lparr>s_song_id = song_id r, s_title = title r, s_artist_id = artist_id r,
             s_year = year r, s_duration = duration r\<rparr>) ` set (collect df)"
    by (simp add: set_rows_written_partitionBy collect_songs_table songs_cols_def image_def)
  have s2: "set ?artists =
      (\<lambda>r. \<lparr>a_artist_id = artist_id r, a_name = artist_name r,
             a_location = artist_location r, a_latitude = artist_latitude r,
             a_longitude = artist_longitude r\<rparr>) ` set (collect df)"
    by (simp add: collect_artists_table artists_cols_def image_def)
  have "inj_on s_song_id (set (map songs_cols (collect df))) \<longleftrightarrow>
      (\<forall>r\<in>set (collect df). \<forall>r'\<in>set (collect df).
         song_id r = song_id r' \<longrightarrow>
           title r = title r' \<and> artist_id r = artist_id r' \<and> year r = year r' \<and>
           duration r = duration r')"
    by (auto simp: inj_on_def songs_cols_def)
  then have u1: "distinct (map s_song_id (rows_written ?songs)) \<longleftrightarrow>
      (\<forall>r\<in>set (collect df). \<forall>r'\<in>set (collect df).
         song_id r = song_id r' \<longrightarrow>
           title r = title r' \<and> artist_id r = artist_id r' \<and> year r = year r' \<and>
           duration r = duration r')"
    by (simp only: distinct_map_rows_written_partitionBy collect_songs_table
        distinct_map_remdups_iff)
  have "inj_on a_artist_id (set (map artists_cols (collect df))) \<longleftrightarrow>
      (\<forall>r\<in>set (collect df). \<forall>r'\<in>set (collect df).
         artist_id r = artist_id r' \<longrightarrow>
           artist_name r = artist_name r' \<and> artist_location r = artist_location r' \<and>
           artist_latitude r = artist_latitude r' \<and> artist_longitude r = artist_longitude r')"
    by (auto simp: inj_on_def artists_cols_def)
  then have u2: "distinct (map a_artist_id ?artists) \<longleftrightarrow>
      (\<forall>r\<in>set (collect df). \<forall>r'\<in>set (collect df).
         artist_id r = artist_id r' \<longrightarrow>
           artist_name r = artist_name r' \<and> artist_location r = artist_location r' \<and>
           artist_latitude r = artist_latitude r' \<and> artist_longitude r = artist_longitude r')"
    by (simp only: collect_artists_table distinct_map_remdups_iff)
  show ?thesis
    by (rule exI [where x = ?songs], rule exI [where x = ?artists])
      (intro conjI o1 o2 d1 d2 s1 s2 u1 u2)
qed

lemma time_parquet_process_log_data:
  assumes "eval_df (with_start_time cal) (where_df (\<lambda>r. page r = Some ''NextSong'') df) = Inr df2"
  shows "time_parquet (fst (process_log_data cal spark df out))
      = Some (partitionBy (\<lambda>r. (t_year r, t_month r)) (time_table cal df2))"
  using assms by (simp add: process_log_data_def Let_def split: sum.splits)

lemma enriched_rows:
  assumes "eval_df (with_start_time cal) (where_df (\<lambda>r. page r = Some ''NextSong'') df) = Inr df2"
  shows "list_all2 (\<lambda>r r2. with_start_time cal r = Inr r2)
           (filter (\<lambda>r. page r = Some ''NextSong'') (collect df)) (collect df2)"
  using eval_df_collect [OF assms] by (simp add: collect_where_df)

lemma enriched_row_fields:
  assumes "eval_df (with_start_time cal) (where_df (\<lambda>r. page r = Some ''NextSong'') df) = Inr df2"
    and "r2 \<in> set (collect df2)"
  shows "l_year r2 = sql_year cal (start_time r2)"
    and "l_month r2 = sql_month cal (start_time r2)"
    and "page r2 = Some ''NextSong''"
    and "log_data.truncate r2 \<in> set (collect df)"
    and "get_timestamp cal (ts r2) = Inr (start_time r2)"
proof -
  from list_all2_rhs_ex [OF enriched_rows [OF assms(1)] assms(2)]
  obtain r where r: "r \<in> set (collect df)" "page r = Some ''NextSong''"
    "with_start_time cal r = Inr r2"
    by auto
  from with_start_time_Inr [OF r(3)] r(1,2)
  show "l_year r2 = sql_year cal (start_time r2)"
    and "l_month r2 = sql_month cal (start_time r2)"
    and "page r2 = Some ''NextSong''"
    and "log_data.truncate r2 \<in> set (collect df)"
    and "get_timestamp cal (ts r2) = Inr (start_time r2)"
    by (auto simp: log_data.defs)
qed

lemma enriched_start_times:
  assumes "eval_df (with_start_time cal) (where_df (\<lambda>r. page r = Some ''NextSong'') df) = Inr df2"
  shows "start_time ` set (collect df2) =
    {t. \<exists>r\<in>set (collect df). page r = Some ''NextSong'' \<and> get_timestamp cal (ts r) = Inr t}"
proof (intro set_eqI iffI)
  fix t
  assume "t \<in> start_time ` set (collect df2)"
  then obtain r2 where r2: "r2 \<in> set (collect df2)" "t = start_time r2"
    by auto
  from list_all2_rhs_ex [OF enriched_rows [OF assms] r2(1)]
  obtain r where "r \<in> set (collect df)" "page r = Some ''NextSong''"
    "with_start_time cal r = Inr r2"
    by auto
  with r2(2) with_start_time_Inr(1) [of cal r r2]
  show "t \<in> {t. \<exists>r\<in>set (collect df). page r = Some ''NextSong'' \<and> get_timestamp cal (ts r) = Inr t}"
    by auto
next
  fix t
  assume "t \<in> {t. \<exists>r\<in>set (collect df). page r = Some ''NextSong'' \<and> get_timestamp cal (ts r) = Inr t}"
  then obtain r where r: "r \<in> set (collect df)" "page r = Some ''NextSong''"
    "get_timestamp cal (ts r) = Inr t"
    by auto
  then have "r \<in> set (filter (\<lambda>r. page r = Some ''NextSong'') (collect df))"
    by simp
  from list_all2_lhs_ex [OF enriched_rows [OF assms] this]
  obtain r2 where r2: "r2 \<in> set (collect df2)" "with_start_time cal r = Inr r2"
    by auto
  from with_start_time_Inr(1) [OF r2(2)] r(3) have "start_time r2 = t"
    by simp
  with r2(1) show "t \<in> start_time ` set (collect df2)"
    by auto
qed

text \<open>
  Claim C6.  When the timestamp UDF succeeds on every row that passes the filter, the time
  output is written, its \<open>start_time\<close> values are pairwise distinct, and they are exactly
  the timestamps of the \<^verbatim>\<open>NextSong\<close> events.  The deduplication compares the triple
  (start_time, year, month), but year and month are functions of start_time.
\<close>
theorem time_start_time_unique:
  assumes "\<forall>r\<in>set (collect df). page r = Some ''NextSong'' \<longrightarrow> (\<exists>t. get_timestamp cal (ts r) = Inr t)"
  shows "\<exists>parts. time_parquet (fst (process_log_data cal spark df out)) = Some parts \<and>
      distinct (map t_start_time (rows_written parts)) \<and>
      set (map t_start_time (rows_written parts)) =
        {t. \<exists>r\<in>set (collect df). page r = Some ''NextSong'' \<and> get_timestamp cal (ts r) = Inr t}"
proof -
  from assms have "ts_ok cal df" by (simp add: ts_ok_def)
  then obtain df2 where
    df2: "eval_df (with_start_time cal) (where_df (\<lambda>r. page r = Some ''NextSong'') df) = Inr df2"
    using ts_ok_eval by blast
  let ?parts = "partitionBy (\<lambda>r. (t_year r, t_month r)) (time_table cal df2)"
  have fst_eq: "map t_start_time (map (time_fields cal) xs) = map fst xs" for xs
    by (simp add: time_fields_def split_def)
  have "inj_on fst (set (map time_cols (collect df2)))"
  proof (rule inj_onI)
    fix x y
    assume "x \<in> set (map time_cols (collect df2))" "y \<in> set (map time_cols (collect df2))"
      and eq: "fst x = fst y"
    then obtain r r' where r: "r \<in> set (collect df2)" "x = time_cols r"
      and r': "r' \<in> set (collect df2)" "y = time_cols r'"
      by auto
    from enriched_row_fields(1,2) [OF df2 r(1)] enriched_row_fields(1,2) [OF df2 r'(1)] eq r(2) r'(2)
    show "x = y"
      by (simp add: time_cols_def)
  qed
  then have "distinct (map t_start_time (collect (time_table cal df2)))"
    by (simp only: collect_time_table fst_eq distinct_map_remdups_iff)
  then have d: "distinct (map t_start_time (rows_written ?parts))"
    by (simp only: distinct_map_rows_written_partitionBy)
  have "set (map t_start_time (rows_written ?parts))
      = t_start_time ` set (collect (time_table cal df2))"
    by (simp add: set_rows_written_partitionBy)
  also have "\<dots> = set (map fst (remdups (map time_cols (collect df2))))"
    by (simp only: collect_time_table fst_eq [symmetric] set_map)
  also have "\<dots> = start_time ` set (collect df2)"
    by (auto simp: time_cols_def image_iff)
  finally have s: "set (map t_start_time (rows_written ?parts)) =
      {t. \<exists>r\<in>set (collect df). page r = Some ''NextSong'' \<and> get_timestamp cal (ts r) = Inr t}"
    by (simp only: enriched_start_times [OF df2])
  from time_parquet_process_log_data [OF df2, of spark out] d s show ?thesis
    by blast
qed

lemma sql_eq_True_iff: "sql_eq x y = Some True \<longleftrightarrow> (\<exists>v. x = Some v \<and> y = Some v)"
  by (cases x; cases y) auto

lemma sql_and_True_iff: "sql_and a b = Some True \<longleftrightarrow> a = Some True \<and> b = Some True"
  by (cases "(a, b)" rule: sql_and.cases) auto

lemma join_on_True_iff:
  "join_on l m = Some True \<longleftrightarrow>
     (\<exists>a s. artist l = Some a \<and> m_artist_name m = Some a \<and> song l = Some s \<and> m_title m = Some s)"
  by (auto simp: join_on_def sql_and_True_iff sql_eq_True_iff)

lemma join_on_True_pair:
  "join_on l m = Some True \<Longrightarrow> (artist l, song l) = (m_artist_name m, m_title m)"
  by (auto simp: join_on_True_iff)

lemma join_on_nonnull:
  "artist l \<noteq> None \<Longrightarrow> song l \<noteq> None \<Longrightarrow>
   join_on l m = Some True \<longleftrightarrow> (m_artist_name m, m_title m) = (artist l, song l)"
  by (auto simp: join_on_True_iff)

lemma collect_songplays:
  "collect (songplays df songs_art) =
     concat (map (\<lambda>e. map songplays_cols (join_row join_on (collect songs_art) e))
       (collect (with_songplay_id df)))"
proof -
  have "concat (map (map f) (map (\<lambda>part. concat (map g part)) xss))
      = concat (map (\<lambda>e. map f (g e)) (concat xss))" for f :: "'c \<Rightarrow> 'd" and g :: "'e \<Rightarrow> 'c list" and xss
    by (induction xss) (simp_all add: map_concat comp_def)
  then show ?thesis
    by (simp add: songplays_def select_df_def join_inner_def collect_def)
qed

lemma tag_part:
  "list_all2 (\<lambda>r l. log_row.truncate l = r \<and> (\<exists>k. songplay_id l = monotonically_increasing_id p k))
     part
     (map (\<lambda>(k, r). log_row.extend r \<lparr>songplay_id = monotonically_increasing_id p k\<rparr>)
        (enumerate n part))"
  by (induction part arbitrary: n) (auto simp: log_row.defs)

lemma tag_df:
  "list_all2 (list_all2 (\<lambda>r l. log_row.truncate l = r))
     df
     (map (\<lambda>(p, part). map (\<lambda>(k, r). log_row.extend r \<lparr>songplay_id = monotonically_increasing_id p k\<rparr>)
        (enumerate 0 part)) (enumerate n df))"
proof (induction df arbitrary: n)
  case Nil
  then show ?case by simp
next
  case (Cons part df)
  have "list_all2 (\<lambda>r l. log_row.truncate l = r) part
     (map (\<lambda>(k, r). log_row.extend r \<lparr>songplay_id = monotonically_increasing_id n k\<rparr>)
        (enumerate 0 part))"
    using tag_part [of n part 0] by (rule list_all2_mono) simp
  with Cons.IH [of "Suc n"] show ?case by simp
qed

lemma tagged_rows:
  "list_all2 (\<lambda>r l. log_row.truncate l = r) (collect df) (collect (with_songplay_id df))"
  unfolding collect_def with_songplay_id_def using tag_df [of df 0] by (rule list_all2_concat)

lemma truncate_fields:
  "log_row.truncate l = r \<Longrightarrow>
     start_time l = start_time r \<and> l_year l = l_year r \<and> l_month l = l_month r \<and>
     log_data.truncate l = log_data.truncate r"
  by (auto simp: log_row.defs log_data.defs)



lemma tagged_row_origin:
  assumes "l \<in> set (collect (with_songplay_id df2))"
  shows "log_row.truncate l \<in> set (collect df2)"
  using list_all2_rhs_ex [OF tagged_rows assms] by auto

lemma tagged_row_fields:
  assumes "eval_df (with_start_time cal) (where_df (\<lambda>r. page r = Some ''NextSong'') df) = Inr df2"
    and "l \<in> set (collect (with_songplay_id df2))"
  shows "l_year l = sql_year cal (start_time l)"
    and "l_month l = sql_month cal (start_time l)"
    and "page l = Some ''NextSong''"
    and "log_data.truncate l \<in> set (collect df)"
    and "get_timestamp cal (ts l) = Inr (start_time l)"
proof -
  let ?r = "log_row.truncate l"
  have r: "?r \<in> set (collect df2)"
    using assms(2) by (rule tagged_row_origin)
  have f: "start_time l = start_time ?r" "l_year l = l_year ?r" "l_month l = l_month ?r"
    "log_data.truncate l = log_data.truncate ?r" "page l = page ?r" "ts l = ts ?r"
    by (simp_all add: log_row.defs log_data.defs)
  from enriched_row_fields [OF assms(1) r] f
  show "l_year l = sql_year cal (start_time l)"
    and "l_month l = sql_month cal (start_time l)"
    and "page l = Some ''NextSong''"
    and "log_data.truncate l \<in> set (collect df)"
    and "get_timestamp cal (ts l) = Inr (start_time l)"
    by simp_all
qed






lemma events_of_filtered:
  assumes "eval_df (with_start_time cal) (where_df (\<lambda>r. page r = Some ''NextSong'') df) = Inr df2"
  shows "list_all2 (\<lambda>r e. log_data.truncate e = r \<and> get_timestamp cal (ts r) = Inr (start_time e))
           (filter (\<lambda>r. page r = Some ''NextSong'') (collect df)) (collect (with_songplay_id df2))"
proof -
  have 1: "list_all2 (\<lambda>r r2. log_data.truncate r2 = r \<and> get_timestamp cal (ts r) = Inr (start_time r2))
      (filter (\<lambda>r. page r = Some ''NextSong'') (collect df)) (collect df2)"
    using enriched_rows [OF assms]
    by (rule list_all2_mono) (auto dest: with_start_time_Inr)
  have 2: "list_all2 (\<lambda>r2 e. log_data.truncate e = log_data.truncate r2 \<and> start_time e = start_time r2)
      (collect df2) (collect (with_songplay_id df2))"
    using tagged_rows [of df2]
    by (rule list_all2_mono) (auto simp: log_row.defs log_data.defs)
  from list_all2_trans [where ?P1.0 = "\<lambda>r r2. log_data.truncate r2 = r \<and> get_timestamp cal (ts r) = Inr (start_time r2)"
      and ?P2.0 = "\<lambda>r2 e. log_data.truncate e = log_data.truncate r2 \<and> start_time e = start_time r2"
      and ?P3.0 = "\<lambda>r e. log_data.truncate e = r \<and> get_timestamp cal (ts r) = Inr (start_time e)", OF _ 1 2]
  show ?thesis by simp
qed

lemma main_eq:
  "main cal sdf ldf spark out =
     process_log_data cal (fst (process_song_data spark sdf out)) ldf
       (snd (process_song_data spark sdf out))"
  by (simp add: main_def split_def)

lemma view_after_process_song_data:
  "temp_views (fst (process_song_data spark sdf out)) ''sng_art_mapping'' = Some (sng_art_mapping sdf)"
  by (simp add: process_song_data_def Let_def createOrReplaceTempView_def)

lemma collect_sng_art_mapping:
  "collect (sng_art_mapping sdf) = remdups (map sng_art_cols (collect sdf))"
  by (simp add: sng_art_mapping_def collect_dropDuplicates collect_select_df)

lemma distinct_singleton_set: "distinct xs \<Longrightarrow> set xs = {x} \<Longrightarrow> xs = [x]"
proof (cases xs)
  case Nil
  assume "set xs = {x}"
  with Nil show ?thesis by simp
next
  case (Cons y ys)
  assume d: "distinct xs" and s: "set xs = {x}"
  from Cons s have "y = x" by auto
  moreover from Cons d s \<open>y = x\<close> have "ys = []"
    by (cases ys) auto
  ultimately show ?thesis using Cons by simp
qed

lemma join_on_catalog:
  "join_on e (sng_art_cols c) = Some True \<longleftrightarrow>
     artist e \<noteq> None \<and> song e \<noteq> None \<and> (artist_name c, title c) = (artist e, song e)"
  by (auto simp: join_on_True_iff sng_art_cols_def)

lemma join_on_null: "artist e = None \<or> song e = None \<Longrightarrow> join_on e m \<noteq> Some True"
  by (auto simp: join_on_True_iff)

lemma matches_none:
  assumes "artist e = None \<or> song e = None \<or>
     (\<forall>c\<in>set cs. (artist e, song e) \<noteq> (artist_name c, title c))"
  shows "join_row join_on (remdups (map sng_art_cols cs)) e = []"
proof -
  have "\<forall>m\<in>set (remdups (map sng_art_cols cs)). join_on e m \<noteq> Some True"
    using assms by (auto simp: join_on_catalog dest: join_on_null)
  then show ?thesis
    by (simp add: join_row_def filter_empty_conv)
qed

lemma matches_one:
  assumes "c \<in> set cs" and "artist e \<noteq> None" and "song e \<noteq> None"
    and "(artist_name c, title c) = (artist e, song e)"
    and "\<forall>c'\<in>set cs. (artist_name c', title c') = (artist e, song e) \<longrightarrow>
           song_id c' = song_id c \<and> artist_id c' = artist_id c"
  shows "join_row join_on (remdups (map sng_art_cols cs)) e = [(e, sng_art_cols c)]"
proof -
  let ?ms = "filter (\<lambda>m. join_on e m = Some True) (remdups (map sng_art_cols cs))"
  have d: "distinct ?ms"
    by simp
  have "set ?ms = {sng_art_cols c}"
  proof (intro set_eqI iffI)
    fix m
    assume "m \<in> set ?ms"
    then obtain c' where c': "c' \<in> set cs" "m = sng_art_cols c'" "join_on e (sng_art_cols c') = Some True"
      by auto
    then have "(artist_name c', title c') = (artist e, song e)"
      by (simp add: join_on_catalog)
    with assms(4,5) c'(1) have "sng_art_cols c' = sng_art_cols c"
      by (auto simp: sng_art_cols_def)
    with c'(2) show "m \<in> {sng_art_cols c}"
      by simp
  next
    fix m
    assume "m \<in> {sng_art_cols c}"
    with assms(1-4) show "m \<in> set ?ms"
      by (auto simp: join_on_catalog)
  qed
  with d have "?ms = [sng_art_cols c]"
    by (rule distinct_singleton_set)
  then show ?thesis
    by (simp add: join_row_def)
qed

lemma matches_origin:
  assumes "p \<in> set (join_row join_on (remdups (map sng_art_cols cs)) e)"
  shows "\<exists>c\<in>set cs. artist e \<noteq> None \<and> song e \<noteq> None \<and>
     (artist_name c, title c) = (artist e, song e) \<and> p = (e, sng_art_cols c)"
  using assms by (auto simp: join_row_def join_on_catalog)

lemma songplays_cols_catalog:
  "songplays_cols (e, sng_art_cols c) =
     \<lparr>sp_songplay_id = songplay_id e, sp_start_time = start_time e, sp_user_id = user_id e,
      sp_level = level e, sp_song_id = song_id c, sp_artist_id = artist_id c,
      sp_session_id = session_id e, sp_location = location e, sp_user_agent = user_agent e,
      sp_year = l_year e, sp_month = l_month e\<rparr>"
  by (simp add: songplays_cols_def sng_art_cols_def)

lemma list_all2_conj_rhs:
  "list_all2 P xs ys \<Longrightarrow> \<forall>y\<in>set ys. Q y \<Longrightarrow> list_all2 (\<lambda>x y. P x y \<and> Q y) xs ys"
  by (induction rule: list_all2_induct) auto

text \<open>
  Claim C1, as amended.  When the timestamp UDF succeeds on every row that passes the
  filter, the run of \<open>main\<close> (catalog first, then log) succeeds.  The event rows are the
  \<^verbatim>\<open>NextSong\<close> records of the log, in order, each with its derived columns, and the rows
  written to the songplays output are, as a multiset, the rows the join emits for these
  event rows, event by event.  An event with a null artist or a null song gets no row, and
  so does an event whose pair (artist, song) equals the pair (artist_name, title) of no
  catalog record.  An event with an artist and a song whose pair equals that of a catalog
  record, where all catalog records with that pair have the same \<open>song_id\<close> and
  \<open>artist_id\<close> (the lookup table has exactly one matching entry), gets exactly one row:
  the event's columns with the \<open>song_id\<close> and \<open>artist_id\<close> of that record.  Every row of an
  event carries the \<open>song_id\<close> and \<open>artist_id\<close> of a catalog record whose artist name and
  title are the event's artist and song.
\<close>
theorem songplays_inner_join:
  fixes cal :: "'ts calendar"
  assumes "\<forall>r\<in>set (collect log_df). page r = Some ''NextSong'' \<longrightarrow>
      (\<exists>t. get_timestamp cal (ts r) = Inr t)"
  shows "\<exists>events parts.
      list_all2 (\<lambda>r e. (log_data.truncate e = r \<and> get_timestamp cal (ts r) = Inr (start_time e)) \<and>
            l_year e = sql_year cal (start_time e) \<and> l_month e = sql_month cal (start_time e))
        (filter (\<lambda>r. page r = Some ''NextSong'') (collect log_df)) events \<and>
      snd (main cal song_df log_df spark out) = Inr () \<and>
      songplays_parquet (fst (main cal song_df log_df spark out)) = Some parts \<and>
      mset (rows_written parts) =
        mset (concat (map (\<lambda>e. map songplays_cols
          (join_row join_on (collect (sng_art_mapping song_df)) e)) events)) \<and>
      (\<forall>e\<in>set events.
         (artist e = None \<or> song e = None \<longrightarrow>
            map songplays_cols (join_row join_on (collect (sng_art_mapping song_df)) e) = []) \<and>
         ((\<forall>c\<in>set (collect song_df). (artist e, song e) \<noteq> (artist_name c, title c)) \<longrightarrow>
            map songplays_cols (join_row join_on (collect (sng_art_mapping song_df)) e) = []) \<and>
         (\<forall>c\<in>set (collect song_df).
            artist e \<noteq> None \<and> song e \<noteq> None \<and>
            (artist_name c, title c) = (artist e, song e) \<and>
            (\<forall>c'\<in>set (collect song_df). (artist_name c', title c') = (artist e, song e) \<longrightarrow>
               song_id c' = song_id c \<and> artist_id c' = artist_id c) \<longrightarrow>
            map songplays_cols (join_row join_on (collect (sng_art_mapping song_df)) e) =
              [\<lparr>sp_songplay_id = songplay_id e, sp_start_time = start_time e,
                sp_user_id = user_id e, sp_level = level e, sp_song_id = song_id c,
                sp_artist_id = artist_id c, sp_session_id = session_id e,
                sp_location = location e, sp_user_agent = user_agent e,
                sp_year = l_year e, sp_month = l_month e\<rparr>]) \<and>
         (\<forall>row\<in>set (map songplays_cols (join_row join_on (collect (sng_art_mapping song_df)) e)).
            \<exists>c\<in>set (collect song_df).
              artist e \<noteq> None \<and> song e \<noteq> None \<and>
              (artist_name c, title c) = (artist e, song e) \<and>
              row = \<lparr>sp_songplay_id = songplay_id e, sp_start_time = start_time e,
                sp_user_id = user_id e, sp_level = level e, sp_song_id = song_id c,
                sp_artist_id = artist_id c, sp_session_id = session_id e,
                sp_location = location e, sp_user_agent = user_agent e,
                sp_year = l_year e, sp_month = l_month e\<rparr>))"
proof -
  from assms have "ts_ok cal log_df" by (simp add: ts_ok_def)
  then obtain df2 where
    df2: "eval_df (with_start_time cal) (where_df (\<lambda>r. page r = Some ''NextSong'') log_df) = Inr df2"
    using ts_ok_eval by blast
  let ?events = "collect (with_songplay_id df2)"
  let ?view = "sng_art_mapping song_df"
  let ?parts = "partitionBy (\<lambda>r. (sp_year r, sp_month r)) (songplays df2 ?view)"
  let ?rows = "\<lambda>e. map songplays_cols (join_row join_on (collect ?view) e)"
  note run = process_log_data_success [OF df2 view_after_process_song_data,
      of spark song_df out "snd (process_song_data spark song_df out)"]
  have "\<forall>e\<in>set ?events. l_year e = sql_year cal (start_time e) \<and> l_month e = sql_month cal (start_time e)"
    using tagged_row_fields(1,2) [OF df2] by blast
  with events_of_filtered [OF df2]
  have a: "list_all2 (\<lambda>r e. (log_data.truncate e = r \<and> get_timestamp cal (ts r) = Inr (start_time e)) \<and>
            l_year e = sql_year cal (start_time e) \<and> l_month e = sql_month cal (start_time e))
        (filter (\<lambda>r. page r = Some ''NextSong'') (collect log_df)) ?events"
    by (rule list_all2_conj_rhs)
  have b: "snd (main cal song_df log_df spark out) = Inr ()"
    and c: "songplays_parquet (fst (main cal song_df log_df spark out)) = Some ?parts"
    using run by (simp_all add: main_eq)
  have d: "mset (rows_written ?parts) = mset (concat (map ?rows ?events))"
    by (simp only: mset_rows_written_partitionBy collect_songplays)
  have e: "\<forall>e\<in>set ?events.
         (artist e = None \<or> song e = None \<longrightarrow> ?rows e = []) \<and>
         ((\<forall>c\<in>set (collect song_df). (artist e, song e) \<noteq> (artist_name c, title c)) \<longrightarrow>
            ?rows e = []) \<and>
         (\<forall>c\<in>set (collect song_df).
            artist e \<noteq> None \<and> song e \<noteq> None \<and>
            (artist_name c, title c) = (artist e, song e) \<and>
            (\<forall>c'\<in>set (collect song_df). (artist_name c', title c') = (artist e, song e) \<longrightarrow>
               song_id c' = song_id c \<and> artist_id c' = artist_id c) \<longrightarrow>
            ?rows e =
              [\<lparr>sp_songplay_id = songplay_id e, sp_start_time = start_time e,
                sp_user_id = user_id e, sp_level = level e, sp_song_id = song_id c,
                sp_artist_id = artist_id c, sp_session_id = session_id e,
                sp_location = location e, sp_user_agent = user_agent e,
                sp_year = l_year e, sp_month = l_month e\<rparr>]) \<and>
         (\<forall>row\<in>set (?rows e).
            \<exists>c\<in>set (collect song_df).
              artist e \<noteq> None \<and> song e \<noteq> None \<and>
              (artist_name c, title c) = (artist e, song e) \<and>
              row = \<lparr>sp_songplay_id = songplay_id e, sp_start_time = start_time e,
                sp_user_id = user_id e, sp_level = level e, sp_song_id = song_id c,
                sp_artist_id = artist_id c, sp_session_id = session_id e,
                sp_location = location e, sp_user_agent = user_agent e,
                sp_year = l_year e, sp_month = l_month e\<rparr>)"
  proof (intro ballI conjI impI)
    fix e :: "'ts log_row_id"
    assume "artist e = None \<or> song e = None"
    then have "join_row join_on (remdups (map sng_art_cols (collect song_df))) e = []"
      by (intro matches_none) blast
    then show "?rows e = []"
      by (simp add: collect_sng_art_mapping)
  next
    fix e :: "'ts log_row_id"
    assume "\<forall>c\<in>set (collect song_df). (artist e, song e) \<noteq> (artist_name c, title c)"
    then have "join_row join_on (remdups (map sng_art_cols (collect song_df))) e = []"
      by (intro matches_none) blast
    then show "?rows e = []"
      by (simp add: collect_sng_art_mapping)
  next
    fix e :: "'ts log_row_id" and c
    assume c: "c \<in> set (collect song_df)"
      and h: "artist e \<noteq> None \<and> song e \<noteq> None \<and>
            (artist_name c, title c) = (artist e, song e) \<and>
            (\<forall>c'\<in>set (collect song_df). (artist_name c', title c') = (artist e, song e) \<longrightarrow>
               song_id c' = song_id c \<and> artist_id c' = artist_id c)"
    from h have h1: "artist e \<noteq> None" and h2: "song e \<noteq> None"
      and h3: "(artist_name c, title c) = (artist e, song e)"
      and h4: "\<forall>c'\<in>set (collect song_df). (artist_name c', title c') = (artist e, song e) \<longrightarrow>
               song_id c' = song_id c \<and> artist_id c' = artist_id c"
      by blast+
    from c h1 h2 h3 h4
    have "join_row join_on (remdups (map sng_art_cols (collect song_df))) e = [(e, sng_art_cols c)]"
      by (rule matches_one)
    then have "join_row join_on (collect ?view) e = [(e, sng_art_cols c)]"
      by (simp only: collect_sng_art_mapping)
    then show "?rows e =
              [\<lparr>sp_songplay_id = songplay_id e, sp_start_time = start_time e,
                sp_user_id = user_id e, sp_level = level e, sp_song_id = song_id c,
                sp_artist_id = artist_id c, sp_session_id = session_id e,
                sp_location = location e, sp_user_agent = user_agent e,
                sp_year = l_year e, sp_month = l_month e\<rparr>]"
      by (simp add: songplays_cols_catalog)
  next
    fix e :: "'ts log_row_id" and row
    assume "row \<in> set (?rows e)"
    then obtain p where p: "p \<in> set (join_row join_on (remdups (map sng_art_cols (collect song_df))) e)"
      and row: "row = songplays_cols p"
      by (auto simp: collect_sng_art_mapping)
    from matches_origin [OF p] obtain c where c: "c \<in> set (collect song_df)"
      "artist e \<noteq> None" "song e \<noteq> None" "(artist_name c, title c) = (artist e, song e)"
      "p = (e, sng_art_cols c)"
      by blast
    from row c(5) have "row = \<lparr>sp_songplay_id = songplay_id e, sp_start_time = start_time e,
                sp_user_id = user_id e, sp_level = level e, sp_song_id = song_id c,
                sp_artist_id = artist_id c, sp_session_id = session_id e,
                sp_location = location e, sp_user_agent = user_agent e,
                sp_year = l_year e, sp_month = l_month e\<rparr>"
      by (simp add: songplays_cols_catalog)
    with c(1-4) show "\<exists>c\<in>set (collect song_df).
              artist e \<noteq> None \<and> song e \<noteq> None \<and>
              (artist_name c, title c) = (artist e, song e) \<and>
              row = \<lparr>sp_songplay_id = songplay_id e, sp_start_time = start_time e,
                sp_user_id = user_id e, sp_level = level e, sp_song_id = song_id c,
                sp_artist_id = artist_id c, sp_session_id = session_id e,
                sp_location = location e, sp_user_agent = user_agent e,
                sp_year = l_year e, sp_month = l_month e\<rparr>"
      by blast
  qed
  show ?thesis
    by (rule exI [where x = ?events], rule exI [where x = ?parts])
      (intro conjI a b c d e)
qed

lemma unat_monotonically_increasing_id:
  assumes "p < 2 ^ 31" and "k < 2 ^ 33"
  shows "unat (monotonically_increasing_id p k) = p * 2 ^ 33 + k"
proof -
  define n where "n = p * 2 ^ 33 + k"
  have id: "monotonically_increasing_id p k = (word_of_nat n :: 64 word)"
    by (simp add: n_def monotonically_increasing_id_def push_bit_eq_mult)
  have "p * 2 ^ 33 + k < (p + 1) * 2 ^ 33"
    using assms(2) by simp
  also have "\<dots> \<le> 2 ^ 31 * 2 ^ 33"
    using assms(1) by (intro mult_right_mono) simp_all
  finally have "n < 2 ^ 64"
    by (simp add: n_def)
  then have "unat (word_of_nat n :: 64 word) = n"
    by (simp add: unat_of_nat)
  then show ?thesis
    by (simp only: id n_def)
qed

lemma monotonically_increasing_id_inj:
  assumes "p < 2 ^ 31" "k < 2 ^ 33" "p' < 2 ^ 31" "k' < 2 ^ 33"
    and "monotonically_increasing_id p k = monotonically_increasing_id p' k'"
  shows "p = p' \<and> k = k'"
proof -
  from assms have eq: "p * 2 ^ 33 + k = p' * 2 ^ 33 + k'"
    by (metis unat_monotonically_increasing_id)
  from arg_cong [OF eq, of "\<lambda>n. n div 2 ^ 33"] assms(2,4) have "p = p'"
    by simp
  with eq show ?thesis by simp
qed

lemma map_fst_enumerate_fun:
  "map (\<lambda>x. f (fst x)) (enumerate n part) = map f [n..<n + length part]"
proof -
  have "map (\<lambda>x. f (fst x)) (enumerate n part) = map f (map fst (enumerate n part))"
    by (simp only: map_map comp_def)
  then show ?thesis
    by (simp only: map_fst_enumerate)
qed

lemma songplay_ids_part:
  "map (songplay_id \<circ>
        (\<lambda>pa. log_row.extend (snd pa) \<lparr>songplay_id = monotonically_increasing_id p (fst pa)\<rparr>))
     (enumerate 0 part)
   = map (monotonically_increasing_id p) [0..<length part]"
  using map_fst_enumerate_fun [of "monotonically_increasing_id p" 0 part]
  by (simp add: log_row.defs comp_def)

lemma songplay_ids_df:
  "map songplay_id (collect (with_songplay_id df)) =
     concat (map (\<lambda>(p, part). map (monotonically_increasing_id p) [0..<length part]) (enumerate 0 df))"
proof -
  have "map (map songplay_id) (with_songplay_id df)
      = map (\<lambda>(p, part). map (monotonically_increasing_id p) [0..<length part]) (enumerate 0 df)"
    unfolding with_songplay_id_def
    by (simp add: split_def songplay_ids_part)
  then show ?thesis
    by (simp add: collect_def map_concat)
qed

lemma distinct_ids_from:
  assumes "n + length df \<le> 2 ^ 31" and "\<forall>part\<in>set df. length part \<le> 2 ^ 33"
  shows "distinct (concat (map (\<lambda>(p, part). map (monotonically_increasing_id p) [0..<length part])
           (enumerate n df))) \<and>
         (\<forall>i\<in>set (concat (map (\<lambda>(p, part). map (monotonically_increasing_id p) [0..<length part])
           (enumerate n df))).
            \<exists>p k. i = monotonically_increasing_id p k \<and> n \<le> p \<and> p < 2 ^ 31 \<and> k < 2 ^ 33)"
  using assms
proof (induction df arbitrary: n)
  case Nil
  then show ?case by simp
next
  case (Cons part df)
  let ?rest = "concat (map (\<lambda>(p, part). map (monotonically_increasing_id p) [0..<length part])
           (enumerate (Suc n) df))"
  let ?first = "map (monotonically_increasing_id n) [0..<length part]"
  from Cons.prems have n: "n < 2 ^ 31" and len: "length part \<le> 2 ^ 33"
    and prems': "Suc n + length df \<le> 2 ^ 31" "\<forall>part\<in>set df. length part \<le> 2 ^ 33"
    by simp_all
  from Cons.IH [OF prems'] have d_rest: "distinct ?rest"
    and in_rest: "\<forall>i\<in>set ?rest. \<exists>p k. i = monotonically_increasing_id p k \<and> Suc n \<le> p \<and> p < 2 ^ 31 \<and> k < 2 ^ 33"
    by simp_all
  have "inj_on (monotonically_increasing_id n) (set [0..<length part])"
  proof (rule inj_onI)
    fix k k'
    assume "k \<in> set [0..<length part]" "k' \<in> set [0..<length part]"
      and "monotonically_increasing_id n k = monotonically_increasing_id n k'"
    with len n monotonically_increasing_id_inj [of n k n k'] show "k = k'"
      by simp
  qed
  then have d_first: "distinct ?first"
    by (simp add: distinct_map)
  have in_first: "\<forall>i\<in>set ?first. \<exists>k. i = monotonically_increasing_id n k \<and> k < 2 ^ 33"
    using len by auto
  have disj: "set ?first \<inter> set ?rest = {}"
  proof (rule ccontr)
    assume "set ?first \<inter> set ?rest \<noteq> {}"
    then obtain i where "i \<in> set ?first" "i \<in> set ?rest"
      by blast
    with in_first in_rest obtain k p k' where
      "i = monotonically_increasing_id n k" "k < 2 ^ 33"
      "i = monotonically_increasing_id p k'" "Suc n \<le> p" "p < 2 ^ 31" "k' < 2 ^ 33"
      by blast
    with n monotonically_increasing_id_inj [of n k p k'] show False
      by simp
  qed
  have split: "concat (map (\<lambda>(p, part). map (monotonically_increasing_id p) [0..<length part])
           (enumerate n (part # df))) = ?first @ ?rest"
    by simp
  have "\<forall>i\<in>set (?first @ ?rest).
      \<exists>p k. i = monotonically_increasing_id p k \<and> n \<le> p \<and> p < 2 ^ 31 \<and> k < 2 ^ 33"
  proof
    fix i
    assume "i \<in> set (?first @ ?rest)"
    then consider "i \<in> set ?first" | "i \<in> set ?rest"
      by auto
    then show "\<exists>p k. i = monotonically_increasing_id p k \<and> n \<le> p \<and> p < 2 ^ 31 \<and> k < 2 ^ 33"
    proof cases
      case 1
      with in_first n show ?thesis by blast
    next
      case 2
      with in_rest obtain p k where "i = monotonically_increasing_id p k" "Suc n \<le> p"
        "p < 2 ^ 31" "k < 2 ^ 33"
        by blast
      then have "i = monotonically_increasing_id p k \<and> n \<le> p \<and> p < 2 ^ 31 \<and> k < 2 ^ 33"
        by simp
      then show ?thesis by blast
    qed
  qed
  moreover have "distinct (?first @ ?rest)"
    using d_first d_rest disj by simp
  ultimately show ?case
    unfolding split by (rule conjI [rotated])
qed

lemma distinct_songplay_ids:
  assumes "length df \<le> 2 ^ 31" and "\<forall>part\<in>set df. length part \<le> 2 ^ 33"
  shows "distinct (map songplay_id (collect (with_songplay_id df)))"
  using distinct_ids_from [of 0 df] assms by (simp add: songplay_ids_df)

lemma join_on_truncate: "join_on (log_data.truncate e) m = join_on e m"
  by (simp add: join_on_def log_data.defs)

lemma songplay_ids_of_event:
  "map (\<lambda>x. sp_songplay_id (songplays_cols x)) (join_row join_on lookup e)
     = replicate (length (filter (\<lambda>m. join_on e m = Some True) lookup)) (songplay_id e)"
  by (simp add: join_row_def songplays_cols_def comp_def map_replicate_const)

lemma distinct_concat_replicate_if:
  assumes "distinct (map f es)" and "\<forall>e\<in>set es. c e \<le> (1::nat)"
  shows "distinct (concat (map (\<lambda>e. replicate (c e) (f e)) es))"
  using assms
proof (induction es)
  case Nil
  then show ?case by simp
next
  case (Cons e es)
  then have IH: "distinct (concat (map (\<lambda>e. replicate (c e) (f e)) es))"
    and fresh: "f e \<notin> f ` set es" and c: "c e = 0 \<or> c e = 1"
    by auto
  have "set (concat (map (\<lambda>e. replicate (c e) (f e)) es)) \<subseteq> f ` set es"
    by auto
  with fresh have "f e \<notin> set (concat (map (\<lambda>e. replicate (c e) (f e)) es))"
    by blast
  with IH c show ?case
    by auto
qed

lemma distinct_replicate_le: "distinct (replicate n x) \<Longrightarrow> n \<le> 1"
proof (cases n)
  case 0
  then show ?thesis by simp
next
  case (Suc m)
  assume "distinct (replicate n x)"
  with Suc show ?thesis by (cases m) auto
qed

lemma distinct_concat_replicate_only_if:
  assumes "distinct (concat (map (\<lambda>e. replicate (c e) (f e)) es))" and "e \<in> set es"
  shows "c e \<le> (1::nat)"
  using assms
proof (induction es)
  case Nil
  then show ?case by simp
next
  case (Cons a es)
  then show ?case
    by (auto dest: distinct_replicate_le)
qed

lemma distinct_songplays_ids_iff:
  assumes "distinct (map songplay_id (collect (with_songplay_id df2)))"
  shows "distinct (map sp_songplay_id (collect (songplays df2 songs_art))) \<longleftrightarrow>
    (\<forall>e\<in>set (collect (with_songplay_id df2)).
       length (filter (\<lambda>m. join_on e m = Some True) (collect songs_art)) \<le> 1)"
proof -
  let ?c = "\<lambda>e. length (filter (\<lambda>m. join_on e m = Some True) (collect songs_art))"
  let ?ids = "concat (map (\<lambda>e. replicate (?c e) (songplay_id e)) (collect (with_songplay_id df2)))"
  have eq: "map sp_songplay_id (collect (songplays df2 songs_art)) = ?ids"
    by (simp add: collect_songplays map_concat comp_def songplay_ids_of_event)
  show ?thesis
  proof
    assume "distinct (map sp_songplay_id (collect (songplays df2 songs_art)))"
    then have "distinct ?ids"
      by (simp only: eq)
    then show "\<forall>e\<in>set (collect (with_songplay_id df2)). ?c e \<le> 1"
      using distinct_concat_replicate_only_if [of ?c songplay_id "collect (with_songplay_id df2)"]
      by blast
  next
    assume "\<forall>e\<in>set (collect (with_songplay_id df2)). ?c e \<le> 1"
    with assms have "distinct ?ids"
      by (rule distinct_concat_replicate_if)
    then show "distinct (map sp_songplay_id (collect (songplays df2 songs_art)))"
      by (simp only: eq)
  qed
qed

lemma enriched_partition_bounds:
  assumes "eval_df f (where_df p df) = Inr df2"
    and "length df \<le> n" and "\<forall>part\<in>set df. length part \<le> k"
  shows "length df2 \<le> n \<and> (\<forall>part\<in>set df2. length part \<le> k)"
proof -
  from assms(1) have l: "list_all2 (list_all2 (\<lambda>x y. f x = Inr y)) (where_df p df) df2"
    by (simp add: eval_df_Inr_iff)
  then have "length df2 = length df"
    by (auto dest: list_all2_lengthD simp: where_df_def)
  moreover have "length part2 \<le> k" if "part2 \<in> set df2" for part2
  proof -
    from list_all2_rhs_ex [OF l that] obtain part where
      "part \<in> set (where_df p df)" "length part = length part2"
      by (auto dest: list_all2_lengthD)
    then obtain part0 where "part0 \<in> set df" "part = filter p part0"
      by (auto simp: where_df_def)
    with assms(3) \<open>length part = length part2\<close> show ?thesis
      using length_filter_le [of p part0] by (metis le_trans)
  qed
  ultimately show ?thesis
    using assms(2) by simp
qed

lemma length_filter_mset:
  assumes "mset xs = mset ys"
  shows "length (filter P xs) = length (filter P ys)"
  by (rule mset_eq_length) (simp add: assms)

lemma filter_concat_other_keys:
  assumes "\<forall>e'\<in>set es. \<forall>row\<in>set (f e'). h row = g e'" and "\<forall>e'\<in>set es. g e' \<noteq> x"
  shows "filter (\<lambda>row. h row = x) (concat (map f es)) = []"
  using assms by (induction es) (auto simp: filter_empty_conv)

lemma length_filter_concat_key:
  assumes "distinct (map g es)" and "e \<in> set es"
    and "\<forall>e'\<in>set es. \<forall>row\<in>set (f e'). h row = g e'"
  shows "length (filter (\<lambda>row. h row = g e) (concat (map f es))) = length (f e)"
  using assms
proof (induction es)
  case Nil
  then show ?case by simp
next
  case (Cons a es)
  show ?case
  proof (cases "a = e")
    case True
    from Cons.prems(1) True have "g e \<notin> g ` set es"
      by simp
    then have "\<forall>e'\<in>set es. g e' \<noteq> g e"
      by (metis imageI)
    with Cons.prems(3) have "filter (\<lambda>row. h row = g e) (concat (map f es)) = []"
      by (intro filter_concat_other_keys) auto
    moreover from Cons.prems(3) True have "filter (\<lambda>row. h row = g e) (f a) = f a"
      by (auto simp: filter_id_conv)
    ultimately show ?thesis using True by simp
  next
    case False
    with Cons.prems(2) have e: "e \<in> set es"
      by simp
    with Cons.prems(1) have "g a \<noteq> g e"
      by force
    with Cons.prems(3) have "filter (\<lambda>row. h row = g e) (f a) = []"
      by (auto simp: filter_empty_conv)
    moreover from Cons.IH [OF _ e] Cons.prems(1,3)
    have "length (filter (\<lambda>row. h row = g e) (concat (map f es))) = length (f e)"
      by simp
    ultimately show ?thesis by simp
  qed
qed

text \<open>
  Claim C8, as amended.  The id is assigned to the event rows before the join.  In a run
  with the view registered, the timestamp UDF succeeding, at most \<open>2\<^sup>3\<^sup>1\<close> partitions and
  at most \<open>2\<^sup>3\<^sup>3\<close> rows in each, the \<open>songplay_id\<close> values of the event rows are pairwise
  distinct; the \<open>songplay_id\<close> values of the songplays output are pairwise distinct
  exactly when no \<^verbatim>\<open>NextSong\<close> event matches more than one entry of the lookup table;
  and the number of rows of the songplays output that carry the id of an event is the
  number of entries of the lookup table that the event matches.
\<close>
theorem songplay_ids_distinct_iff_unique_matches:
  assumes "temp_views spark ''sng_art_mapping'' = Some songs_art"
    and "\<forall>r\<in>set (collect df). page r = Some ''NextSong'' \<longrightarrow> (\<exists>t. get_timestamp cal (ts r) = Inr t)"
    and "length df \<le> 2 ^ 31" and "\<forall>part\<in>set df. length part \<le> 2 ^ 33"
  shows "\<exists>df2 parts.
      eval_df (with_start_time cal) (where_df (\<lambda>r. page r = Some ''NextSong'') df) = Inr df2 \<and>
      distinct (map songplay_id (collect (with_songplay_id df2))) \<and>
      songplays_parquet (fst (process_log_data cal spark df out)) = Some parts \<and>
      (distinct (map sp_songplay_id (rows_written parts)) \<longleftrightarrow>
        (\<forall>r\<in>set (collect df). page r = Some ''NextSong'' \<longrightarrow>
           length (filter (\<lambda>m. join_on r m = Some True) (collect songs_art)) \<le> 1)) \<and>
      (\<forall>e\<in>set (collect (with_songplay_id df2)).
         length (filter (\<lambda>row. sp_songplay_id row = songplay_id e) (rows_written parts)) =
         length (filter (\<lambda>m. join_on e m = Some True) (collect songs_art)))"
proof -
  from assms(2) have "ts_ok cal df" by (simp add: ts_ok_def)
  then obtain df2 where
    df2: "eval_df (with_start_time cal) (where_df (\<lambda>r. page r = Some ''NextSong'') df) = Inr df2"
    using ts_ok_eval by blast
  let ?parts = "partitionBy (\<lambda>r. (sp_year r, sp_month r)) (songplays df2 songs_art)"
  let ?events = "collect (with_songplay_id df2)"
  let ?c = "\<lambda>r. length (filter (\<lambda>m. join_on r m = Some True) (collect songs_art))"
  from enriched_partition_bounds [OF df2 assms(3,4)]
  have ids: "distinct (map songplay_id ?events)"
    by (intro distinct_songplay_ids) simp_all
  have parts: "songplays_parquet (fst (process_log_data cal spark df out)) = Some ?parts"
    using process_log_data_success [OF df2 assms(1), of out] by simp
  note ev = events_of_filtered [OF df2]
  have "(\<forall>e\<in>set ?events. ?c e \<le> 1) \<longleftrightarrow>
      (\<forall>r\<in>set (filter (\<lambda>r. page r = Some ''NextSong'') (collect df)). ?c r \<le> 1)"
  proof (intro iffI ballI)
    fix r
    assume a: "\<forall>e\<in>set ?events. ?c e \<le> 1"
      and "r \<in> set (filter (\<lambda>r. page r = Some ''NextSong'') (collect df))"
    from list_all2_lhs_ex [OF ev this(2)] obtain e where "e \<in> set ?events" "log_data.truncate e = r"
      by auto
    with a join_on_truncate [of e] show "?c r \<le> 1"
      by auto
  next
    fix e
    assume a: "\<forall>r\<in>set (filter (\<lambda>r. page r = Some ''NextSong'') (collect df)). ?c r \<le> 1"
      and "e \<in> set ?events"
    from list_all2_rhs_ex [OF ev this(2)] obtain r where
      "r \<in> set (filter (\<lambda>r. page r = Some ''NextSong'') (collect df))" "log_data.truncate e = r"
      by auto
    with a join_on_truncate [of e] show "?c e \<le> 1"
      by auto
  qed
  then have "distinct (map sp_songplay_id (rows_written ?parts)) \<longleftrightarrow>
      (\<forall>r\<in>set (collect df). page r = Some ''NextSong'' \<longrightarrow> ?c r \<le> 1)"
    using distinct_songplays_ids_iff [OF ids, of songs_art]
    by (auto simp: distinct_map_rows_written_partitionBy)
  then have iff: "distinct (map sp_songplay_id (rows_written ?parts)) \<longleftrightarrow>
      (\<forall>r\<in>set (collect df). page r = Some ''NextSong'' \<longrightarrow> ?c r \<le> 1)" .
  have cnt: "\<forall>e\<in>set ?events.
      length (filter (\<lambda>row. sp_songplay_id row = songplay_id e) (rows_written ?parts)) = ?c e"
  proof
    fix e
    assume e: "e \<in> set ?events"
    have "length (filter (\<lambda>row. sp_songplay_id row = songplay_id e) (rows_written ?parts)) =
        length (filter (\<lambda>row. sp_songplay_id row = songplay_id e) (collect (songplays df2 songs_art)))"
      using mset_rows_written_partitionBy by (rule length_filter_mset)
    also have "\<dots> = length (map songplays_cols (join_row join_on (collect songs_art) e))"
      unfolding collect_songplays using ids e
      by (rule length_filter_concat_key) (auto simp: join_row_def songplays_cols_def)
    also have "\<dots> = ?c e"
      by (simp add: join_row_def)
    finally show "length (filter (\<lambda>row. sp_songplay_id row = songplay_id e) (rows_written ?parts)) = ?c e" .
  qed
  show ?thesis
    by (rule exI [where x = df2], rule exI [where x = ?parts]) (intro conjI df2 ids parts iff cnt)
qed

section \<open>Concrete runs\<close>

lemma code_calendar_E1:
  "fromtimestamp code_calendar 946684800 = Some 946684800000"
  "sql_year code_calendar t = None"
  "sql_month code_calendar t = None"
  "sql_hour code_calendar t = None"
  "sql_dayofmonth code_calendar t = None"
  "sql_weekofyear code_calendar t = None"
  "sql_dayofweek code_calendar t = None"
  by (simp_all add: code_calendar_def)

lemma get_timestamp_E1: "get_timestamp code_calendar (Some 946684800000) = Inr 946684800000"
  by (simp add: get_timestamp_def code_calendar_E1)

lemma event_fields:
  "page event_E1 = Some ''NextSong''" "ts event_E1 = Some 946684800000"
  "page event_E1_paid = Some ''NextSong''" "ts event_E1_paid = Some 946684800000"
  "page event_other = Some ''NextSong''" "ts event_other = Some 946684800000"
  "page event_anon = Some ''NextSong''" "ts event_anon = Some 946684800000"
  "page event_Home = Some ''Home''"
  by (simp_all add: event_E1_def event_E1_paid_def event_other_def event_anon_def event_Home_def)

lemma with_start_time_code:
  "ts r = Some 946684800000 \<Longrightarrow>
   with_start_time code_calendar r =
     Inr (log_data.extend r \<lparr>start_time = 946684800000, l_year = None, l_month = None\<rparr>)"
  by (simp add: with_start_time_def get_timestamp_E1 code_calendar_E1)

lemma enriched_log_A:
  "eval_df (with_start_time code_calendar) (where_df (\<lambda>r. page r = Some ''NextSong'') log_A) =
   Inr [[log_data.extend event_E1 \<lparr>start_time = 946684800000, l_year = None, l_month = None\<rparr>],
        [log_data.extend event_other \<lparr>start_time = 946684800000, l_year = None, l_month = None\<rparr>]]"
  by (simp add: log_A_def where_df_def eval_df_def event_fields with_start_time_code)

lemma users_log_A:
  "collect (users_table (where_df (\<lambda>r. page r = Some ''NextSong'') log_A)) =
    [\<lparr>u_user_id = Some ''1'', u_first_name = Some ''A'', u_last_name = Some ''B'',
      u_gender = Some ''F'', u_level = Some ''free''\<rparr>]"
  by (simp add: where_df_def users_table_def users_cols_def dropDuplicates_def select_df_def
      collect_def log_A_def event_E1_def event_other_def event_Home_def)

lemma time_log_A:
  "partitionBy (\<lambda>r. (t_year r, t_month r)) (time_table code_calendar
     [[log_data.extend event_E1 \<lparr>start_time = 946684800000, l_year = None, l_month = None\<rparr>],
      [log_data.extend event_other \<lparr>start_time = 946684800000, l_year = None, l_month = None\<rparr>]]) =
    [((None, None),
      [\<lparr>t_start_time = 946684800000, t_year = None, t_month = None,
        t_hour = None, t_day = None, t_week = None, t_weekday = None\<rparr>])]"
  by (simp add: partitionBy_def time_table_def time_cols_def time_fields_def dropDuplicates_def
      select_df_def collect_def code_calendar_E1 log_data.defs)

lemma songplays_log_A:
  "partitionBy (\<lambda>r. (sp_year r, sp_month r)) (songplays
     [[log_data.extend event_E1 \<lparr>start_time = 946684800000, l_year = None, l_month = None\<rparr>],
      [log_data.extend event_other
         \<lparr>start_time = (946684800000::int), l_year = None, l_month = None\<rparr>]]
     [[\<lparr>m_song_id = Some ''S1'', m_title = Some ''Test Song'', m_artist_id = Some ''A1'',
           m_artist_name = Some ''Test Artist''\<rparr>]]) =
    [((None, None),
      [\<lparr>sp_songplay_id = 0, sp_start_time = 946684800000, sp_user_id = Some ''1'',
        sp_level = Some ''free'', sp_song_id = Some ''S1'', sp_artist_id = Some ''A1'',
        sp_session_id = Some 100, sp_location = Some ''loc'', sp_user_agent = Some ''ua'',
        sp_year = None, sp_month = None\<rparr>])]"
  by (simp add: partitionBy_def songplays_def songplays_cols_def join_inner_def join_row_def
      join_on_def with_songplay_id_def monotonically_increasing_id_def select_df_def collect_def
      log_data.defs log_row.defs event_E1_def event_other_def)

lemma song_scenario:
  "process_song_data new_session [[song_S1]] empty_sink =
    (\<lparr>temp_views = [''sng_art_mapping'' \<mapsto>
        [[\<lparr>m_song_id = Some ''S1'', m_title = Some ''Test Song'', m_artist_id = Some ''A1'',
           m_artist_name = Some ''Test Artist''\<rparr>]]]\<rparr>,
     \<lparr>songs_parquet = Some [((Some 2000, Some ''A1''),
        [\<lparr>s_song_id = Some ''S1'', s_title = Some ''Test Song'', s_artist_id = Some ''A1'',
          s_year = Some 2000, s_duration = Some 200\<rparr>])],
      artists_parquet = Some [\<lparr>a_artist_id = Some ''A1'', a_name = Some ''Test Artist'',
          a_location = Some ''NYC'', a_latitude = Some 40.7, a_longitude = Some (- 74)\<rparr>],
      users_parquet = None, time_parquet = None, songplays_parquet = None\<rparr>)"
  by (simp add: process_song_data_def Let_def partitionBy_def songs_table_def
      sng_art_mapping_def artists_table_def dropDuplicates_def select_df_def collect_def
      createOrReplaceTempView_def songs_cols_def sng_art_cols_def artists_cols_def
      song_S1_def new_session_def empty_sink_def)

lemma catalog_session_view:
  "temp_views catalog_session ''sng_art_mapping'' =
      Some [[\<lparr>m_song_id = Some ''S1'', m_title = Some ''Test Song'', m_artist_id = Some ''A1'',
           m_artist_name = Some ''Test Artist''\<rparr>]]"
  by (simp add: catalog_session_def song_scenario)

lemma log_scenario:
  assumes "temp_views spark ''sng_art_mapping'' =
      Some [[\<lparr>m_song_id = Some ''S1'', m_title = Some ''Test Song'', m_artist_id = Some ''A1'',
           m_artist_name = Some ''Test Artist''\<rparr>]]"
  shows "process_log_data code_calendar spark log_A out =
    (out\<lparr>users_parquet := Some [\<lparr>u_user_id = Some ''1'', u_first_name = Some ''A'',
          u_last_name = Some ''B'', u_gender = Some ''F'', u_level = Some ''free''\<rparr>],
        time_parquet := Some [((None, None),
          [\<lparr>t_start_time = 946684800000, t_year = None, t_month = None,
            t_hour = None, t_day = None, t_week = None, t_weekday = None\<rparr>])],
        songplays_parquet := Some [((None, None),
          [\<lparr>sp_songplay_id = 0, sp_start_time = 946684800000, sp_user_id = Some ''1'',
            sp_level = Some ''free'', sp_song_id = Some ''S1'', sp_artist_id = Some ''A1'',
            sp_session_id = Some 100, sp_location = Some ''loc'', sp_user_agent = Some ''ua'',
            sp_year = None, sp_month = None\<rparr>])]\<rparr>,
     Inr ())"
  by (simp only: process_log_data_success [OF enriched_log_A assms]
      users_log_A time_log_A songplays_log_A)

lemma ts_ok_log_A:
  "\<forall>r\<in>set (collect log_A). page r = Some ''NextSong'' \<longrightarrow>
     (\<exists>t. get_timestamp code_calendar (ts r) = Inr t)"
  by (simp add: log_A_def collect_def event_fields get_timestamp_E1)

lemma ts_ok_log_B:
  "\<forall>r\<in>set (collect log_B). page r = Some ''NextSong'' \<longrightarrow>
     (\<exists>t. get_timestamp code_calendar (ts r) = Inr t)"
  by (simp add: log_B_def collect_def event_fields get_timestamp_E1)

lemma main_scenario:
  "main code_calendar [[song_S1]] log_A new_session empty_sink =
    (\<lparr>songs_parquet = Some [((Some 2000, Some ''A1''),
        [\<lparr>s_song_id = Some ''S1'', s_title = Some ''Test Song'', s_artist_id = Some ''A1'',
          s_year = Some 2000, s_duration = Some 200\<rparr>])],
      artists_parquet = Some [\<lparr>a_artist_id = Some ''A1'', a_name = Some ''Test Artist'',
          a_location = Some ''NYC'', a_latitude = Some 40.7, a_longitude = Some (- 74)\<rparr>],
      users_parquet = Some [\<lparr>u_user_id = Some ''1'', u_first_name = Some ''A'',
          u_last_name = Some ''B'', u_gender = Some ''F'', u_level = Some ''free''\<rparr>],
      time_parquet = Some [((None, None),
          [\<lparr>t_start_time = 946684800000, t_year = None, t_month = None,
            t_hour = None, t_day = None, t_week = None, t_weekday = None\<rparr>])],
      songplays_parquet = Some [((None, None),
          [\<lparr>sp_songplay_id = 0, sp_start_time = 946684800000, sp_user_id = Some ''1'',
            sp_level = Some ''free'', sp_song_id = Some ''S1'', sp_artist_id = Some ''A1'',
            sp_session_id = Some 100, sp_location = Some ''loc'', sp_user_agent = Some ''ua'',
            sp_year = None, sp_month = None\<rparr>])]\<rparr>,
     Inr ())"
proof -
  have "temp_views (fst (process_song_data new_session [[song_S1]] (empty_sink :: int sink)))
      ''sng_art_mapping'' =
      Some [[\<lparr>m_song_id = Some ''S1'', m_title = Some ''Test Song'', m_artist_id = Some ''A1'',
           m_artist_name = Some ''Test Artist''\<rparr>]]"
    by (simp add: song_scenario)
  from log_scenario [OF this] show ?thesis
    by (simp add: main_eq song_scenario)
qed

lemma enriched_anon:
  "eval_df (with_start_time code_calendar)
     (where_df (\<lambda>r. page r = Some ''NextSong'') [[event_anon]]) =
   Inr [[log_data.extend event_anon
           \<lparr>start_time = 946684800000, l_year = None, l_month = None\<rparr>]]"
  by (simp add: where_df_def eval_df_def event_fields with_start_time_code)

lemma mapping_anon:
  "sng_art_mapping [[song_anon]] =
     [[\<lparr>m_song_id = Some ''S1'', m_title = Some ''Test Song'', m_artist_id = Some ''A1'',
        m_artist_name = None\<rparr>]]"
  by (simp add: sng_art_mapping_def dropDuplicates_def select_df_def collect_def
      sng_art_cols_def song_anon_def song_S1_def)

lemma songplays_anon:
  "partitionBy (\<lambda>r. (sp_year r, sp_month r)) (songplays
     [[log_data.extend event_anon
         \<lparr>start_time = (946684800000::int), l_year = None, l_month = None\<rparr>]]
     [[\<lparr>m_song_id = Some ''S1'', m_title = Some ''Test Song'', m_artist_id = Some ''A1'',
        m_artist_name = None\<rparr>]]) = []"
  by (simp add: partitionBy_def songplays_def join_inner_def join_row_def
      join_on_def with_songplay_id_def select_df_def collect_def
      log_data.defs log_row.defs event_anon_def event_E1_def)

text \<open>
  Claim C1 as stated fails on a null name: the play has no artist, the one catalog record
  has the same title and no artist name, so the two pairs are equal and the lookup table
  has exactly one entry, which has that pair; the run succeeds and writes no songplays
  row.
\<close>

theorem songplays_null_match_counterexample:
  "page event_anon = Some ''NextSong'' \<and>
   (artist event_anon, song event_anon) = (artist_name song_anon, title song_anon) \<and>
   collect (sng_art_mapping [[song_anon]]) =
     [\<lparr>m_song_id = Some ''S1'', m_title = Some ''Test Song'', m_artist_id = Some ''A1'',
       m_artist_name = None\<rparr>] \<and>
   (m_artist_name \<lparr>m_song_id = Some ''S1'', m_title = Some ''Test Song'',
       m_artist_id = Some ''A1'', m_artist_name = None\<rparr>,
    m_title \<lparr>m_song_id = Some ''S1'', m_title = Some ''Test Song'',
       m_artist_id = Some ''A1'', m_artist_name = None\<rparr>) = (artist event_anon, song event_anon) \<and>
   snd (main code_calendar [[song_anon]] [[event_anon]] new_session empty_sink) = Inr () \<and>
   songplays_parquet (fst (main code_calendar [[song_anon]] [[event_anon]] new_session empty_sink))
     = Some []"
proof -
  have v: "temp_views (fst (process_song_data new_session [[song_anon]] (empty_sink :: int sink)))
      ''sng_art_mapping'' =
      Some [[\<lparr>m_song_id = Some ''S1'', m_title = Some ''Test Song'', m_artist_id = Some ''A1'',
        m_artist_name = None\<rparr>]]"
    by (simp only: view_after_process_song_data mapping_anon)
  have f: "page event_anon = Some ''NextSong''" "artist event_anon = None"
    "song event_anon = Some ''Test Song''" "artist_name song_anon = None"
    "title song_anon = Some ''Test Song''"
    by (simp_all add: event_anon_def event_E1_def song_anon_def song_S1_def)
  show ?thesis
    by (simp add: f mapping_anon collect_def main_eq
        process_log_data_success [OF enriched_anon v] songplays_anon)
qed

text \<open>Claim C1, as amended, on the scenario: the matching play gets one row, the play of
  the other song none.\<close>

theorem songplays_inner_join_witness:
  "(\<exists>events parts.
      list_all2 (\<lambda>r e. (log_data.truncate e = r \<and>
              get_timestamp code_calendar (ts r) = Inr (start_time e)) \<and>
            l_year e = sql_year code_calendar (start_time e) \<and>
            l_month e = sql_month code_calendar (start_time e))
        (filter (\<lambda>r. page r = Some ''NextSong'') (collect log_A)) events \<and>
      snd (main code_calendar [[song_S1]] log_A new_session empty_sink) = Inr () \<and>
      songplays_parquet (fst (main code_calendar [[song_S1]] log_A new_session empty_sink)) = Some parts \<and>
      mset (rows_written parts) =
        mset (concat (map (\<lambda>e. map songplays_cols
          (join_row join_on (collect (sng_art_mapping [[song_S1]])) e)) events)) \<and>
      (\<forall>e\<in>set events.
         (artist e = None \<or> song e = None \<longrightarrow>
            map songplays_cols (join_row join_on (collect (sng_art_mapping [[song_S1]])) e) = []) \<and>
         ((\<forall>c\<in>set (collect [[song_S1]]). (artist e, song e) \<noteq> (artist_name c, title c)) \<longrightarrow>
            map songplays_cols (join_row join_on (collect (sng_art_mapping [[song_S1]])) e) = []) \<and>
         (\<forall>c\<in>set (collect [[song_S1]]).
            artist e \<noteq> None \<and> song e \<noteq> None \<and>
            (artist_name c, title c) = (artist e, song e) \<and>
            (\<forall>c'\<in>set (collect [[song_S1]]). (artist_name c', title c') = (artist e, song e) \<longrightarrow>
               song_id c' = song_id c \<and> artist_id c' = artist_id c) \<longrightarrow>
            map songplays_cols (join_row join_on (collect (sng_art_mapping [[song_S1]])) e) =
              [\<lparr>sp_songplay_id = songplay_id e, sp_start_time = start_time e,
                sp_user_id = user_id e, sp_level = level e, sp_song_id = song_id c,
                sp_artist_id = artist_id c, sp_session_id = session_id e,
                sp_location = location e, sp_user_agent = user_agent e,
                sp_year = l_year e, sp_month = l_month e\<rparr>]) \<and>
         (\<forall>row\<in>set (map songplays_cols (join_row join_on (collect (sng_art_mapping [[song_S1]])) e)).
            \<exists>c\<in>set (collect [[song_S1]]).
              artist e \<noteq> None \<and> song e \<noteq> None \<and>
              (artist_name c, title c) = (artist e, song e) \<and>
              row = \<lparr>sp_songplay_id = songplay_id e, sp_start_time = start_time e,
                sp_user_id = user_id e, sp_level = level e, sp_song_id = song_id c,
                sp_artist_id = artist_id c, sp_session_id = session_id e,
                sp_location = location e, sp_user_agent = user_agent e,
                sp_year = l_year e, sp_month = l_month e\<rparr>))) \<and>
   songplays_parquet (fst (main code_calendar [[song_S1]] log_A new_session empty_sink)) =
     Some [((None, None),
       [\<lparr>sp_songplay_id = 0, sp_start_time = 946684800000, sp_user_id = Some ''1'',
         sp_level = Some ''free'', sp_song_id = Some ''S1'', sp_artist_id = Some ''A1'',
         sp_session_id = Some 100, sp_location = Some ''loc'', sp_user_agent = Some ''ua'',
         sp_year = None, sp_month = None\<rparr>])]"
proof (rule conjI)
  show "songplays_parquet (fst (main code_calendar [[song_S1]] log_A new_session empty_sink)) =
     Some [((None, None),
       [\<lparr>sp_songplay_id = 0, sp_start_time = 946684800000, sp_user_id = Some ''1'',
         sp_level = Some ''free'', sp_song_id = Some ''S1'', sp_artist_id = Some ''A1'',
         sp_session_id = Some 100, sp_location = Some ''loc'', sp_user_agent = Some ''ua'',
         sp_year = None, sp_month = None\<rparr>])]"
    by (simp add: main_scenario)
qed (rule songplays_inner_join [OF ts_ok_log_A])

text \<open>
  Claim C2 as stated fails: two catalog records with the same song id and artist id and
  different titles and artist names give a Song output with the song id twice and an
  Artist output with the artist id twice.
\<close>

theorem song_id_unique_counterexample:
  "songs_parquet (snd (process_song_data new_session [[song_S1, song_S1_live]] empty_sink)) =
     Some [((Some 2000, Some ''A1''),
       [\<lparr>s_song_id = Some ''S1'', s_title = Some ''Test Song'', s_artist_id = Some ''A1'',
         s_year = Some 2000, s_duration = Some 200\<rparr>,
        \<lparr>s_song_id = Some ''S1'', s_title = Some ''Test Song (Live)'', s_artist_id = Some ''A1'',
         s_year = Some 2000, s_duration = Some 200\<rparr>])] \<and>
   artists_parquet (snd (process_song_data new_session [[song_S1, song_S1_live]] empty_sink)) =
     Some [\<lparr>a_artist_id = Some ''A1'', a_name = Some ''Test Artist'', a_location = Some ''NYC'',
            a_latitude = Some 40.7, a_longitude = Some (- 74)\<rparr>,
           \<lparr>a_artist_id = Some ''A1'', a_name = Some ''The Test Artist'', a_location = Some ''NYC'',
            a_latitude = Some 40.7, a_longitude = Some (- 74)\<rparr>] \<and>
   \<not> distinct (map s_song_id (rows_written
       (the (songs_parquet (snd (process_song_data new_session [[song_S1, song_S1_live]] empty_sink)))))) \<and>
   \<not> distinct (map a_artist_id
       (the (artists_parquet (snd (process_song_data new_session [[song_S1, song_S1_live]] empty_sink)))))"
  by (simp add: process_song_data_def Let_def partitionBy_def songs_table_def rows_written_def
      artists_table_def dropDuplicates_def select_df_def collect_def
      songs_cols_def artists_cols_def song_S1_def song_S1_live_def empty_sink_def)

text \<open>Claim C2, as amended, on the same catalog.\<close>

theorem song_artist_rows_unique_witness:
  "\<exists>songs artists.
      songs_parquet (snd (process_song_data new_session [[song_S1, song_S1_live]] empty_sink)) = Some songs \<and>
      artists_parquet (snd (process_song_data new_session [[song_S1, song_S1_live]] empty_sink)) = Some artists \<and>
      distinct (rows_written songs) \<and> distinct artists \<and>
      set (rows_written songs) =
        (\<lambda>r. \<lparr>s_song_id = song_id r, s_title = title r, s_artist_id = artist_id r,
               s_year = year r, s_duration = duration r\<rparr>) ` set (collect [[song_S1, song_S1_live]]) \<and>
      set artists =
        (\<lambda>r. \<lparr>a_artist_id = artist_id r, a_name = artist_name r,
               a_location = artist_location r, a_latitude = artist_latitude r,
               a_longitude = artist_longitude r\<rparr>) ` set (collect [[song_S1, song_S1_live]]) \<and>
      (distinct (map s_song_id (rows_written songs)) \<longleftrightarrow>
        (\<forall>r\<in>set (collect [[song_S1, song_S1_live]]). \<forall>r'\<in>set (collect [[song_S1, song_S1_live]]).
           song_id r = song_id r' \<longrightarrow>
             title r = title r' \<and> artist_id r = artist_id r' \<and> year r = year r' \<and>
             duration r = duration r')) \<and>
      (distinct (map a_artist_id artists) \<longleftrightarrow>
        (\<forall>r\<in>set (collect [[song_S1, song_S1_live]]). \<forall>r'\<in>set (collect [[song_S1, song_S1_live]]).
           artist_id r = artist_id r' \<longrightarrow>
             artist_name r = artist_name r' \<and> artist_location r = artist_location r' \<and>
             artist_latitude r = artist_latitude r' \<and> artist_longitude r = artist_longitude r'))"
  by (rule song_artist_rows_unique
      [where spark' = "fst (process_song_data new_session [[song_S1, song_S1_live]] empty_sink)"])
    simp

text \<open>Claim C3 on a session with no view.\<close>

theorem missing_view_fails_witness:
  "temp_views new_session ''sng_art_mapping'' = None \<and>
   snd (process_log_data code_calendar new_session log_A empty_sink) =
     Inl (AnalysisException ''sng_art_mapping'') \<and>
   songplays_parquet (fst (process_log_data code_calendar new_session log_A empty_sink)) = None"
proof -
  have h: "temp_views new_session ''sng_art_mapping'' = None"
    by (simp add: new_session_def)
  from missing_view_fails [OF h, of code_calendar log_A empty_sink] ts_ok_log_A h show ?thesis
    by (simp add: empty_sink_def)
qed

text \<open>Claim C4 on the page view of \<open>log_A\<close>.\<close>

theorem other_pages_contribute_nothing_witness:
  "page event_Home \<noteq> Some ''NextSong'' \<and>
   process_log_data code_calendar catalog_session [[event_E1, event_Home], [event_other]] empty_sink =
   process_log_data code_calendar catalog_session [[event_E1], [event_other]] empty_sink"
proof -
  have h: "page event_Home \<noteq> Some ''NextSong''"
    by (simp add: event_fields)
  from other_pages_contribute_nothing [OF h, of code_calendar catalog_session "[]" "[event_E1]" "[]"
      "[[event_other]]" empty_sink] h
  show ?thesis by simp
qed


text \<open>Claim C6 on \<open>log_A\<close>: two plays at the same instant give one row of the time table.\<close>

theorem time_start_time_unique_witness:
  "(\<exists>parts. time_parquet (fst (process_log_data code_calendar catalog_session log_A empty_sink)) = Some parts \<and>
      distinct (map t_start_time (rows_written parts)) \<and>
      set (map t_start_time (rows_written parts)) =
        {t. \<exists>r\<in>set (collect log_A). page r = Some ''NextSong'' \<and>
              get_timestamp code_calendar (ts r) = Inr t}) \<and>
   time_parquet (fst (process_log_data code_calendar catalog_session log_A empty_sink)) =
     Some [((None, None),
       [\<lparr>t_start_time = 946684800000, t_year = None, t_month = None,
         t_hour = None, t_day = None, t_week = None, t_weekday = None\<rparr>])]"
proof (rule conjI)
  show "time_parquet (fst (process_log_data code_calendar catalog_session log_A empty_sink)) =
     Some [((None, None),
       [\<lparr>t_start_time = 946684800000, t_year = None, t_month = None,
         t_hour = None, t_day = None, t_week = None, t_weekday = None\<rparr>])]"
    by (simp add: log_scenario [OF catalog_session_view])
qed (rule time_start_time_unique [OF ts_ok_log_A])

text \<open>Claim C7 on \<open>log_B\<close>: the user appears once on the free and once on the paid level.\<close>

theorem users_exact_row_dedup_witness:
  "(\<exists>users. users_parquet (fst (process_log_data code_calendar new_session log_B empty_sink)) = Some users \<and>
      distinct users \<and>
      set users =
        (\<lambda>r. \<lparr>u_user_id = user_id r, u_first_name = first_name r, u_last_name = last_name r,
               u_gender = gender r, u_level = level r\<rparr>) `
          {r \<in> set (collect log_B). page r = Some ''NextSong''} \<and>
      \<lparr>u_user_id = user_id event_E1, u_first_name = first_name event_E1,
        u_last_name = last_name event_E1, u_gender = gender event_E1,
        u_level = level event_E1\<rparr> \<in> set users \<and>
      \<lparr>u_user_id = user_id event_E1, u_first_name = first_name event_E1,
        u_last_name = last_name event_E1, u_gender = gender event_E1,
        u_level = level event_E1_paid\<rparr> \<in> set users \<and>
      \<lparr>u_user_id = user_id event_E1, u_first_name = first_name event_E1,
        u_last_name = last_name event_E1, u_gender = gender event_E1,
        u_level = level event_E1\<rparr> \<noteq>
      \<lparr>u_user_id = user_id event_E1, u_first_name = first_name event_E1,
        u_last_name = last_name event_E1, u_gender = gender event_E1,
        u_level = level event_E1_paid\<rparr>) \<and>
   users_parquet (fst (process_log_data code_calendar new_session log_B empty_sink)) =
     Some [\<lparr>u_user_id = Some ''1'', u_first_name = Some ''A'', u_last_name = Some ''B'',
             u_gender = Some ''F'', u_level = Some ''free''\<rparr>,
           \<lparr>u_user_id = Some ''1'', u_first_name = Some ''A'', u_last_name = Some ''B'',
             u_gender = Some ''F'', u_level = Some ''paid''\<rparr>]"
proof (rule conjI)
  show "users_parquet (fst (process_log_data code_calendar new_session log_B empty_sink)) =
     Some [\<lparr>u_user_id = Some ''1'', u_first_name = Some ''A'', u_last_name = Some ''B'',
             u_gender = Some ''F'', u_level = Some ''free''\<rparr>,
           \<lparr>u_user_id = Some ''1'', u_first_name = Some ''A'', u_last_name = Some ''B'',
             u_gender = Some ''F'', u_level = Some ''paid''\<rparr>]"
    by (simp add: users_parquet_process_log_data log_B_def collect_def users_cols_def
        event_E1_def event_E1_paid_def)
qed (rule users_exact_row_dedup; simp add: log_B_def collect_def event_E1_def event_E1_paid_def)

text \<open>Claim C10 on a session with no view: users and time are written, songplays is not.\<close>

theorem not_atomic_on_missing_view_witness:
  "temp_views new_session ''sng_art_mapping'' = None \<and>
   process_log_data code_calendar new_session log_A empty_sink =
     (\<lparr>songs_parquet = None, artists_parquet = None,
       users_parquet = Some [\<lparr>u_user_id = Some ''1'', u_first_name = Some ''A'',
          u_last_name = Some ''B'', u_gender = Some ''F'', u_level = Some ''free''\<rparr>],
       time_parquet = Some [((None, None),
          [\<lparr>t_start_time = 946684800000, t_year = None, t_month = None,
            t_hour = None, t_day = None, t_week = None, t_weekday = None\<rparr>])],
       songplays_parquet = None\<rparr>,
      Inl (AnalysisException ''sng_art_mapping''))"
proof -
  have h: "temp_views new_session ''sng_art_mapping'' = None"
    by (simp add: new_session_def)
  from not_atomic_on_missing_view [OF h ts_ok_log_A, of empty_sink] obtain df2 where
    df2: "eval_df (with_start_time code_calendar) (where_df (\<lambda>r. page r = Some ''NextSong'') log_A)
      = Inr df2"
    and run: "process_log_data code_calendar new_session log_A empty_sink =
        (empty_sink\<lparr>users_parquet :=
               Some (collect (users_table (where_df (\<lambda>r. page r = Some ''NextSong'') log_A))),
             time_parquet :=
               Some (partitionBy (\<lambda>r. (t_year r, t_month r)) (time_table code_calendar df2))\<rparr>,
         Inl (AnalysisException ''sng_art_mapping''))"
    by blast
  from df2 have "df2 =
      [[log_data.extend event_E1 \<lparr>start_time = 946684800000, l_year = None, l_month = None\<rparr>],
       [log_data.extend event_other \<lparr>start_time = 946684800000, l_year = None, l_month = None\<rparr>]]"
    by (simp add: enriched_log_A)
  with run h show ?thesis
    by (simp add: users_log_A time_log_A empty_sink_def)
qed

lemma two_songs_view:
  "temp_views (fst (process_song_data new_session [[song_S1, song_S2]] (empty_sink :: int sink)))
      ''sng_art_mapping'' =
     Some [[\<lparr>m_song_id = Some ''S1'', m_title = Some ''Test Song'', m_artist_id = Some ''A1'',
              m_artist_name = Some ''Test Artist''\<rparr>,
            \<lparr>m_song_id = Some ''S2'', m_title = Some ''Test Song'', m_artist_id = Some ''A1'',
              m_artist_name = Some ''Test Artist''\<rparr>]]"
  by (simp add: process_song_data_def Let_def sng_art_mapping_def dropDuplicates_def
      select_df_def collect_def createOrReplaceTempView_def sng_art_cols_def
      song_S1_def song_S2_def new_session_def)

lemma enriched_E1:
  "eval_df (with_start_time code_calendar) (where_df (\<lambda>r. page r = Some ''NextSong'') [[event_E1]]) =
   Inr [[log_data.extend event_E1 \<lparr>start_time = 946684800000, l_year = None, l_month = None\<rparr>]]"
  by (simp add: where_df_def eval_df_def event_fields with_start_time_code)

lemma songplays_two_songs:
  "partitionBy (\<lambda>r. (sp_year r, sp_month r)) (songplays
     [[log_data.extend event_E1
         \<lparr>start_time = (946684800000::int), l_year = None, l_month = None\<rparr>]]
     [[\<lparr>m_song_id = Some ''S1'', m_title = Some ''Test Song'', m_artist_id = Some ''A1'',
              m_artist_name = Some ''Test Artist''\<rparr>,
       \<lparr>m_song_id = Some ''S2'', m_title = Some ''Test Song'', m_artist_id = Some ''A1'',
              m_artist_name = Some ''Test Artist''\<rparr>]]) =
    [((None, None),
      [\<lparr>sp_songplay_id = 0, sp_start_time = 946684800000, sp_user_id = Some ''1'',
        sp_level = Some ''free'', sp_song_id = Some ''S1'', sp_artist_id = Some ''A1'',
        sp_session_id = Some 100, sp_location = Some ''loc'', sp_user_agent = Some ''ua'',
        sp_year = None, sp_month = None\<rparr>,
       \<lparr>sp_songplay_id = 0, sp_start_time = 946684800000, sp_user_id = Some ''1'',
        sp_level = Some ''free'', sp_song_id = Some ''S2'', sp_artist_id = Some ''A1'',
        sp_session_id = Some 100, sp_location = Some ''loc'', sp_user_agent = Some ''ua'',
        sp_year = None, sp_month = None\<rparr>])]"
  by (simp add: partitionBy_def songplays_def songplays_cols_def join_inner_def join_row_def
      join_on_def with_songplay_id_def monotonically_increasing_id_def select_df_def collect_def
      log_data.defs log_row.defs event_E1_def)

text \<open>
  Claim C8 as stated fails: with two catalog entries of the same title and artist name, the
  one play of the log gives two rows of the songplays output, one for each song id, and both
  carry the \<open>songplay_id\<close> 0.
\<close>

theorem songplay_id_distinct_counterexample:
  "snd (main code_calendar [[song_S1, song_S2]] [[event_E1]] new_session empty_sink) = Inr () \<and>
   map sp_songplay_id (rows_written (the (songplays_parquet
       (fst (main code_calendar [[song_S1, song_S2]] [[event_E1]] new_session empty_sink))))) = [0, 0] \<and>
   map sp_song_id (rows_written (the (songplays_parquet
       (fst (main code_calendar [[song_S1, song_S2]] [[event_E1]] new_session empty_sink))))) =
     [Some ''S1'', Some ''S2''] \<and>
   \<not> distinct (map sp_songplay_id (rows_written (the (songplays_parquet
       (fst (main code_calendar [[song_S1, song_S2]] [[event_E1]] new_session empty_sink))))))"
  by (simp add: main_eq process_log_data_success [OF enriched_E1 two_songs_view]
      songplays_two_songs rows_written_def)

lemma enriched_log_B:
  "eval_df (with_start_time code_calendar) (where_df (\<lambda>r. page r = Some ''NextSong'') log_B) =
   Inr [[log_data.extend event_E1 \<lparr>start_time = 946684800000, l_year = None, l_month = None\<rparr>],
        [log_data.extend event_E1_paid \<lparr>start_time = 946684800000, l_year = None, l_month = None\<rparr>]]"
  by (simp add: log_B_def where_df_def eval_df_def event_fields with_start_time_code)

lemma songplay_ids_log_B:
  "map sp_songplay_id (rows_written (partitionBy (\<lambda>r. (sp_year r, sp_month r)) (songplays
     [[log_data.extend event_E1
         \<lparr>start_time = (946684800000::int), l_year = None, l_month = None\<rparr>],
      [log_data.extend event_E1_paid
         \<lparr>start_time = 946684800000, l_year = None, l_month = None\<rparr>]]
     [[\<lparr>m_song_id = Some ''S1'', m_title = Some ''Test Song'', m_artist_id = Some ''A1'',
              m_artist_name = Some ''Test Artist''\<rparr>]]))) = [0, 8589934592]"
  by (simp add: partitionBy_def rows_written_def songplays_def songplays_cols_def join_inner_def
      join_row_def join_on_def with_songplay_id_def monotonically_increasing_id_def select_df_def
      collect_def log_data.defs log_row.defs event_E1_def event_E1_paid_def)

text \<open>Claim C8, as amended, on \<open>log_B\<close>: one id per partition, \<open>0\<close> and \<open>2\<^sup>3\<^sup>3\<close>.\<close>

theorem songplay_ids_distinct_iff_unique_matches_witness:
  "(\<exists>df2 parts.
      eval_df (with_start_time code_calendar) (where_df (\<lambda>r. page r = Some ''NextSong'') log_B) = Inr df2 \<and>
      distinct (map songplay_id (collect (with_songplay_id df2))) \<and>
      songplays_parquet (fst (process_log_data code_calendar catalog_session log_B empty_sink)) = Some parts \<and>
      (distinct (map sp_songplay_id (rows_written parts)) \<longleftrightarrow>
        (\<forall>r\<in>set (collect log_B). page r = Some ''NextSong'' \<longrightarrow>
           length (filter (\<lambda>m. join_on r m = Some True)
             (collect [[\<lparr>m_song_id = Some ''S1'', m_title = Some ''Test Song'',
                m_artist_id = Some ''A1'', m_artist_name = Some ''Test Artist''\<rparr>]])) \<le> 1)) \<and>
      (\<forall>e\<in>set (collect (with_songplay_id df2)).
         length (filter (\<lambda>row. sp_songplay_id row = songplay_id e) (rows_written parts)) =
         length (filter (\<lambda>m. join_on e m = Some True)
           (collect [[\<lparr>m_song_id = Some ''S1'', m_title = Some ''Test Song'',
              m_artist_id = Some ''A1'', m_artist_name = Some ''Test Artist''\<rparr>]])))) \<and>
   map sp_songplay_id (rows_written (the (songplays_parquet
       (fst (process_log_data code_calendar catalog_session log_B empty_sink))))) = [0, 8589934592]"
proof (rule conjI)
  show "map sp_songplay_id (rows_written (the (songplays_parquet
       (fst (process_log_data code_calendar catalog_session log_B empty_sink))))) = [0, 8589934592]"
    by (simp add: process_log_data_success [OF enriched_log_B catalog_session_view]
        songplay_ids_log_B)
qed (rule songplay_ids_distinct_iff_unique_matches [OF catalog_session_view ts_ok_log_B];
     simp add: log_B_def)

end
